theory Spec2Isabelle
  imports Complex_Main "HOL-Library.Log_Nat"
begin

section \<open>Python values\<close>

text \<open>
  Both servers are Python programs working on dynamically typed values: keyword
  arguments, parsed JSON bodies and parsed YAML fixtures. A Python \<open>str\<close> is modelled
  as a \<^typ>\<open>string\<close> whose characters are the code points below 256; a \<open>dict\<close> with
  string keys is an association list in insertion order with distinct keys, read with
  \<open>map_of\<close>. A \<open>float\<close> is an IEEE double: its exact rational value when finite
  (the two zeros are identified, they are equal under \<open>==\<close>), or an infinity, or NaN.
\<close>

datatype pyfloat = Fin rat | PosInf | NegInf | NaN

datatype pyval =
    PNone
  | PBool bool
  | PInt int
  | PFloat pyfloat
  | PStr string
  | PList "pyval list"
  | PDict "(string \<times> pyval) list"
  | PDatetime string

type_synonym pydict = "(string \<times> pyval) list"

text \<open>\<open>d.get(k)\<close> and \<open>d.get(k, default)\<close>.\<close>

definition dict_get :: "pydict \<Rightarrow> string \<Rightarrow> pyval" where
  "dict_get d k = (case map_of d k of None \<Rightarrow> PNone | Some v \<Rightarrow> v)"

definition dict_get_default :: "pydict \<Rightarrow> string \<Rightarrow> pyval \<Rightarrow> pyval" where
  "dict_get_default d k dflt = (case map_of d k of None \<Rightarrow> dflt | Some v \<Rightarrow> v)"

text \<open>Truth value testing (\<open>bool(v)\<close>, \<open>not v\<close>, \<open>v or w\<close>).\<close>

fun truthy :: "pyval \<Rightarrow> bool" where
  "truthy PNone = False"
| "truthy (PBool b) = b"
| "truthy (PInt i) = (i \<noteq> 0)"
| "truthy (PFloat (Fin q)) = (q \<noteq> 0)"
| "truthy (PFloat _) = True"
| "truthy (PStr s) = (s \<noteq> [])"
| "truthy (PList xs) = (xs \<noteq> [])"
| "truthy (PDict kvs) = (kvs \<noteq> [])"
| "truthy (PDatetime _) = True"

text \<open>Decimal rendering of an \<open>int\<close>, as \<open>str(n)\<close> and an f-string do.\<close>

definition digit_char :: "nat \<Rightarrow> char" where
  "digit_char d = char_of (of_char (CHR ''0'') + d)"

fun str_nat :: "nat \<Rightarrow> string" where
  "str_nat n = (if n < 10 then [digit_char n] else str_nat (n div 10) @ [digit_char (n mod 10)])"

definition str_int :: "int \<Rightarrow> string" where
  "str_int i = (if i < 0 then CHR ''-'' # str_nat (nat (- i)) else str_nat (nat i))"

section \<open>The API server: exceptions\<close>

text \<open>
  \<open>src/utils/exceptions.py\<close> of the API server, together with the exceptions of
  \<open>httpx\<close> and of the interpreter that \<open>HTTPClient.get\<close> distinguishes. Every
  \<open>MCPServerError\<close> carries a message and a details mapping; \<open>raise ... from e\<close>
  records \<open>e\<close> as the cause.
\<close>

datatype exn =
    HttpxTimeoutException string
  | HttpxNetworkError string
  | HttpxRequestError string
  | HttpxHTTPStatusError string int string
  | PyException string
  | RuntimeError string
  | MCPTimeoutError string pydict "exn option"
  | APIError string pydict "exn option"
  | ToolExecutionError string pydict "exn option"
  | ValidationError string pydict

text \<open>\<open>str(e)\<close>: the message the exception was constructed with.\<close>

fun str_exn :: "exn \<Rightarrow> string" where
  "str_exn (HttpxTimeoutException m) = m"
| "str_exn (HttpxNetworkError m) = m"
| "str_exn (HttpxRequestError m) = m"
| "str_exn (HttpxHTTPStatusError m c t) = m"
| "str_exn (PyException m) = m"
| "str_exn (RuntimeError m) = m"
| "str_exn (MCPTimeoutError m d c) = m"
| "str_exn (APIError m d c) = m"
| "str_exn (ToolExecutionError m d c) = m"
| "str_exn (ValidationError m d) = m"

text \<open>
  \<open>APIError.__init__(message, status_code=None, response_text=None)\<close>: a status code
  and a response text enter the details only when they are truthy.
\<close>

definition api_error_details :: "int option \<Rightarrow> string option \<Rightarrow> pydict" where
  "api_error_details status_code response_text =
     (case status_code of None \<Rightarrow> [] | Some c \<Rightarrow> if c \<noteq> 0 then [(''status_code'', PInt c)] else [])
     @ (case response_text of None \<Rightarrow> []
        | Some t \<Rightarrow> if t \<noteq> [] then [(''response_text'', PStr t)] else [])"

definition mk_APIError :: "string \<Rightarrow> int option \<Rightarrow> string option \<Rightarrow> exn option \<Rightarrow> exn" where
  "mk_APIError message status_code response_text cause =
     APIError message (api_error_details status_code response_text) cause"

section \<open>The API server: HTTP client\<close>

text \<open>
  \<open>src/utils/http_client.py\<close>. The transport (\<open>httpx.AsyncClient.get\<close>) is the
  environment: its \<open>n\<close>-th invocation either raises an \<open>httpx\<close> exception or yields a
  response, of which the client reads the status code, the body text and the outcome
  of \<open>response.json()\<close> (a decoding error message or the parsed value).
\<close>

record response =
  status_code :: int
  body_text :: string
  json_body :: "string + pyval"

type_synonym transport = "nat \<Rightarrow> exn + response"

record settings =
  request_timeout :: nat
  max_retries :: nat
  retry_delay :: rat

record HTTPClient =
  timeout :: nat
  client_max_retries :: nat
  client_retry_delay :: rat
  has_client :: bool

text \<open>\<open>HTTPClient.__init__\<close>: \<open>x or settings.y\<close> for each option; no client yet.\<close>

definition HTTPClient_init ::
  "settings \<Rightarrow> nat option \<Rightarrow> nat option \<Rightarrow> rat option \<Rightarrow> HTTPClient" where
  "HTTPClient_init cfg t m d =
     \<lparr> timeout = (case t of Some x \<Rightarrow> if x \<noteq> 0 then x else request_timeout cfg
                              | None \<Rightarrow> request_timeout cfg),
       client_max_retries = (case m of Some x \<Rightarrow> if x \<noteq> 0 then x else max_retries cfg
                              | None \<Rightarrow> max_retries cfg),
       client_retry_delay = (case d of Some x \<Rightarrow> if x \<noteq> 0 then x else retry_delay cfg
                              | None \<Rightarrow> retry_delay cfg),
       has_client = False \<rparr>"

definition aenter :: "HTTPClient \<Rightarrow> HTTPClient" where
  "aenter c = c\<lparr>has_client := True\<rparr>"

text \<open>\<open>response.raise_for_status()\<close>: an \<open>HTTPStatusError\<close> unless the status is 2xx.\<close>

definition raise_for_status :: "string \<Rightarrow> response \<Rightarrow> exn + response" where
  "raise_for_status m r =
     (if 200 \<le> status_code r \<and> status_code r \<le> 299 then Inr r
      else Inl (HttpxHTTPStatusError m (status_code r) (body_text r)))"

definition response_json :: "response \<Rightarrow> exn + pyval" where
  "response_json r = (case json_body r of Inl m \<Rightarrow> Inl (PyException m) | Inr v \<Rightarrow> Inr v)"

text \<open>The \<open>try\<close> block of \<open>get\<close>: request, status check, decoding.\<close>

definition get_try :: "exn + response \<Rightarrow> exn + pyval" where
  "get_try outcome =
     (case outcome of
        Inl e \<Rightarrow> Inl e
      | Inr r \<Rightarrow> (case raise_for_status ''status error'' r of
                   Inl e \<Rightarrow> Inl e
                 | Inr r' \<Rightarrow> response_json r'))"

text \<open>
  The \<open>except\<close> clauses of \<open>get\<close>, in the source's order: \<open>httpx.TimeoutException\<close>,
  \<open>httpx.HTTPStatusError\<close>, \<open>httpx.RequestError\<close> (which \<open>NetworkError\<close> derives from),
  then \<open>Exception\<close>. Each one raises an exception of the server's own taxonomy.
\<close>

fun get_except :: "string \<Rightarrow> exn \<Rightarrow> exn" where
  "get_except url (HttpxTimeoutException m) =
     MCPTimeoutError (''Request to '' @ url @ '' timed out'') [] (Some (HttpxTimeoutException m))"
| "get_except url (HttpxHTTPStatusError m c t) =
     mk_APIError (''HTTP '' @ str_int c @ '' error for '' @ url) (Some c) (Some t)
       (Some (HttpxHTTPStatusError m c t))"
| "get_except url (HttpxNetworkError m) =
     mk_APIError (''Request failed for '' @ url @ '': '' @ m) None None (Some (HttpxNetworkError m))"
| "get_except url (HttpxRequestError m) =
     mk_APIError (''Request failed for '' @ url @ '': '' @ m) None None (Some (HttpxRequestError m))"
| "get_except url e =
     mk_APIError (''Unexpected error for '' @ url @ '': '' @ str_exn e) None None (Some e)"

text \<open>
  The body of \<open>get\<close> as written, before the decorator: one call of it invokes the
  transport at most once. The second component counts the transport invocations.
\<close>

definition get_body :: "HTTPClient \<Rightarrow> string \<Rightarrow> transport \<Rightarrow> nat \<Rightarrow> (exn + pyval) \<times> nat" where
  "get_body c url tr n =
     (if \<not> has_client c
      then (Inl (RuntimeError ''HTTPClient must be used as a context manager''), n)
      else (case get_try (tr n) of
              Inl e \<Rightarrow> (Inl (get_except url e), Suc n)
            | Inr v \<Rightarrow> (Inr v, Suc n)))"

text \<open>
  The decorator \<open>@retry(stop=stop_after_attempt(3), wait=wait_exponential(multiplier=1,
  min=1, max=10), retry=retry_if_exception_type((httpx.TimeoutException,
  httpx.NetworkError)), reraise=True)\<close>. \<open>tenacity\<close> calls the decorated function; a
  returned value is returned; a raised exception is tested by the retry predicate:
  when the predicate rejects it, it propagates; when the stop condition holds, the last
  exception is re-raised; otherwise the loop sleeps and calls again.
\<close>

definition retry_if_exception_type_httpx :: "exn \<Rightarrow> bool" where
  "retry_if_exception_type_httpx e =
     (case e of HttpxTimeoutException _ \<Rightarrow> True | HttpxNetworkError _ \<Rightarrow> True | _ \<Rightarrow> False)"

definition stop_after_attempt :: "nat \<Rightarrow> nat \<Rightarrow> bool" where
  "stop_after_attempt m attempt_number = (attempt_number \<ge> m)"

definition wait_exponential :: "nat \<Rightarrow> nat \<Rightarrow> nat \<Rightarrow> nat \<Rightarrow> nat" where
  "wait_exponential multiplier lo hi attempt_number =
     max lo (min (multiplier * 2 ^ (attempt_number - 1)) hi)"

function retry_call ::
  "nat \<Rightarrow> (exn \<Rightarrow> bool) \<Rightarrow> (nat \<Rightarrow> (exn + 'a) \<times> nat) \<Rightarrow> nat \<Rightarrow> nat \<Rightarrow> nat list
     \<Rightarrow> (exn + 'a) \<times> nat \<times> nat list" where
  "retry_call m p f attempt_number n sleeps =
     (case f n of
        (Inr v, n') \<Rightarrow> (Inr v, n', sleeps)
      | (Inl e, n') \<Rightarrow>
          if \<not> p e then (Inl e, n', sleeps)
          else if stop_after_attempt m attempt_number then (Inl e, n', sleeps)
          else retry_call m p f (Suc attempt_number) n'
                 (sleeps @ [wait_exponential 1 1 10 attempt_number]))"
  by pat_completeness auto
termination
  by (relation "measure (\<lambda>(m, p, f, a, n, s). m - a)")
     (auto simp: stop_after_attempt_def)

text \<open>
  \<open>HTTPClient.get\<close> as callers see it: the decorated function. The result is the
  value or exception, the number of transport invocations and the sleeps taken.
\<close>

definition get ::
  "HTTPClient \<Rightarrow> string \<Rightarrow> transport \<Rightarrow> nat \<Rightarrow> (exn + pyval) \<times> nat \<times> nat list" where
  "get c url tr n = retry_call 3 retry_if_exception_type_httpx (get_body c url tr) 1 n []"

text \<open>
  Two transports: one that times out twice and then answers 200 with the JSON object
  \<open>{}\<close>, and one that times out on every invocation.
\<close>

definition ok_response :: response where
  "ok_response = \<lparr> status_code = 200, body_text = ''{}'', json_body = Inr (PDict []) \<rparr>"

definition two_timeouts_then_ok :: transport where
  "two_timeouts_then_ok n =
     (if n < 2 then Inl (HttpxTimeoutException ''timed out'') else Inr ok_response)"

definition always_timeout :: transport where
  "always_timeout n = Inl (HttpxTimeoutException ''timed out'')"

definition not_found_response :: response where
  "not_found_response =
     \<lparr> status_code = 404, body_text = ''Not Found'', json_body = Inl ''Expecting value'' \<rparr>"

definition default_settings :: settings where
  "default_settings = \<lparr> request_timeout = 30, max_retries = 3, retry_delay = 1 \<rparr>"

section \<open>The monitoring server: exceptions and data loader\<close>

text \<open>
  \<open>src/utils/exceptions.py\<close> of the monitoring server, with the library exceptions
  that \<open>DataLoader.load_yaml\<close> catches (\<open>yaml.YAMLError\<close>, \<open>IOError\<close>) and any other
  exception of the interpreter (\<open>PyError\<close>, with its class name and message).
  \<open>TimeRangeError\<close> and \<open>FilterError\<close> are the subclasses of \<open>ValidationError\<close>.
\<close>

datatype mexn =
    YAMLError string
  | IOError string
  | PyError string string
  | DataLoadError string "mexn option"
  | ConfigurationError string
  | Mon_ToolExecutionError string "mexn option"
  | Mon_ValidationError string
  | TimeRangeError string
  | FilterError string

fun str_mexn :: "mexn \<Rightarrow> string" where
  "str_mexn (YAMLError m) = m"
| "str_mexn (IOError m) = m"
| "str_mexn (PyError c m) = m"
| "str_mexn (DataLoadError m c) = m"
| "str_mexn (ConfigurationError m) = m"
| "str_mexn (Mon_ToolExecutionError m c) = m"
| "str_mexn (Mon_ValidationError m) = m"
| "str_mexn (TimeRangeError m) = m"
| "str_mexn (FilterError m) = m"

text \<open>\<open>isinstance(e, ValidationError)\<close> in the monitoring server.\<close>

fun is_validation_error :: "mexn \<Rightarrow> bool" where
  "is_validation_error (Mon_ValidationError m) = True"
| "is_validation_error (TimeRangeError m) = True"
| "is_validation_error (FilterError m) = True"
| "is_validation_error _ = False"

text \<open>\<open>d[k] = v\<close> on an insertion-ordered dictionary.\<close>

fun dict_set :: "string \<Rightarrow> pyval \<Rightarrow> pydict \<Rightarrow> pydict" where
  "dict_set k v [] = [(k, v)]"
| "dict_set k v ((k', v') # kvs) =
     (if k = k' then (k, v) # kvs else (k', v') # dict_set k v kvs)"

text \<open>
  What the disk holds for a path at the moment of a load: no file, a file that cannot
  be read (\<open>IOError\<close>), a file that is not YAML (\<open>yaml.YAMLError\<close>), a failure of
  another class (say \<open>UnicodeDecodeError\<close>), or the value \<open>yaml.safe_load\<close> returns,
  which is \<open>None\<close> for an empty document and may be any YAML value.
\<close>

datatype file_read =
    FileMissing
  | ReadFails string
  | ParseFails string
  | OtherFailure string string
  | Parsed pyval

record DataLoader =
  base_path :: string
  cache :: pydict

definition DataLoader_init :: "string \<Rightarrow> DataLoader" where
  "DataLoader_init bp = \<lparr> base_path = bp, cache = [] \<rparr>"

text \<open>\<open>self.base_path / filepath\<close>, rendered for the message.\<close>

definition full_path :: "DataLoader \<Rightarrow> string \<Rightarrow> string" where
  "full_path dl filepath =
     (if filepath \<noteq> [] \<and> hd filepath = CHR ''/'' then filepath
      else base_path dl @ ''/'' @ filepath)"

text \<open>
  \<open>DataLoader.load_yaml(filepath, use_cache=True)\<close>. The result is the returned value
  or the raised exception, and the loader after the call.
\<close>

definition load_yaml ::
  "DataLoader \<Rightarrow> string \<Rightarrow> bool \<Rightarrow> file_read \<Rightarrow> (mexn + pyval) \<times> DataLoader" where
  "load_yaml dl filepath use_cache disk =
     (case (if use_cache then map_of (cache dl) filepath else None) of
        Some cached \<Rightarrow> (Inr cached, dl)
      | None \<Rightarrow>
         (case disk of
            FileMissing \<Rightarrow>
              (Inl (DataLoadError (''File not found: '' @ full_path dl filepath) None), dl)
          | ReadFails m \<Rightarrow>
              (Inl (DataLoadError (''Failed to read file '' @ filepath @ '': '' @ m)
                      (Some (IOError m))), dl)
          | ParseFails m \<Rightarrow>
              (Inl (DataLoadError (''Failed to parse YAML file '' @ filepath @ '': '' @ m)
                      (Some (YAMLError m))), dl)
          | OtherFailure c m \<Rightarrow> (Inl (PyError c m), dl)
          | Parsed data \<Rightarrow>
              (let v = (if truthy data then data else PDict [])
               in (Inr v, dl\<lparr>cache := dict_set filepath v (cache dl)\<rparr>))))"

definition clear_cache :: "DataLoader \<Rightarrow> DataLoader" where
  "clear_cache dl = dl\<lparr>cache := []\<rparr>"

definition get_cache_stats :: "DataLoader \<Rightarrow> pydict" where
  "get_cache_stats dl =
     [(''cached_items'', PInt (int (length (cache dl)))),
      (''cache_keys'', PList (map (\<lambda>(k, v). PStr k) (cache dl)))]"

text \<open>The named loaders: \<open>load_yaml\<close> on a fixed path, with the cache.\<close>

definition load_interface_logs :: "DataLoader \<Rightarrow> file_read \<Rightarrow> (mexn + pyval) \<times> DataLoader" where
  "load_interface_logs dl disk = load_yaml dl ''logs/interface_logs.yaml'' True disk"

definition load_batch_logs :: "DataLoader \<Rightarrow> file_read \<Rightarrow> (mexn + pyval) \<times> DataLoader" where
  "load_batch_logs dl disk = load_yaml dl ''logs/batch_logs.yaml'' True disk"

definition load_application_logs :: "DataLoader \<Rightarrow> file_read \<Rightarrow> (mexn + pyval) \<times> DataLoader" where
  "load_application_logs dl disk = load_yaml dl ''logs/application_logs.yaml'' True disk"

definition load_server_metrics :: "DataLoader \<Rightarrow> file_read \<Rightarrow> (mexn + pyval) \<times> DataLoader" where
  "load_server_metrics dl disk = load_yaml dl ''performance/server_metrics.yaml'' True disk"

definition load_apm_data :: "DataLoader \<Rightarrow> file_read \<Rightarrow> (mexn + pyval) \<times> DataLoader" where
  "load_apm_data dl disk = load_yaml dl ''performance/apm_data.yaml'' True disk"

definition load_appl_area_metrics :: "DataLoader \<Rightarrow> file_read \<Rightarrow> (mexn + pyval) \<times> DataLoader" where
  "load_appl_area_metrics dl disk = load_yaml dl ''performance/appl_area_metrics.yaml'' True disk"

definition load_apm_traces :: "DataLoader \<Rightarrow> file_read \<Rightarrow> (mexn + pyval) \<times> DataLoader" where
  "load_apm_traces dl disk = load_yaml dl ''apm/traces.yaml'' True disk"

definition load_apm_metrics :: "DataLoader \<Rightarrow> file_read \<Rightarrow> (mexn + pyval) \<times> DataLoader" where
  "load_apm_metrics dl disk = load_yaml dl ''apm/metrics.yaml'' True disk"

definition load_health_check_data :: "DataLoader \<Rightarrow> file_read \<Rightarrow> (mexn + pyval) \<times> DataLoader" where
  "load_health_check_data dl disk = load_yaml dl ''health_checks/api_endpoints.yaml'' True disk"

text \<open>
  A sequence of operations on one loader. Each load comes with what the disk holds
  for its path at that moment.
\<close>

datatype loader_op = LoadYaml string bool file_read | ClearCache | GetCacheStats

fun loader_step :: "DataLoader \<Rightarrow> loader_op \<Rightarrow> DataLoader" where
  "loader_step dl (LoadYaml filepath use_cache disk) = snd (load_yaml dl filepath use_cache disk)"
| "loader_step dl ClearCache = clear_cache dl"
| "loader_step dl GetCacheStats = dl"

definition loader_run :: "DataLoader \<Rightarrow> loader_op list \<Rightarrow> DataLoader" where
  "loader_run dl ops = foldl loader_step dl ops"

text \<open>Whether an operation re-reads \<open>k\<close> although it may be cached.\<close>

fun bypasses_cache :: "string \<Rightarrow> loader_op \<Rightarrow> bool" where
  "bypasses_cache k (LoadYaml filepath use_cache disk) = (filepath = k \<and> \<not> use_cache)"
| "bypasses_cache k _ = False"



text \<open>A loader that has cached one fixture, and a run of operations without a clear.\<close>

definition one_entry_loader :: DataLoader where
  "one_entry_loader =
     loader_run (DataLoader_init ''data'')
       [LoadYaml ''logs/batch_logs.yaml'' True (Parsed (PDict [(''batch_jobs'', PList [])]))]"

definition demo_ops :: "loader_op list" where
  "demo_ops =
     [LoadYaml ''logs/batch_logs.yaml'' True (Parsed (PDict [(''batch_jobs'', PList [PInt 1])])),
      LoadYaml ''apm/traces.yaml'' False (Parsed PNone),
      GetCacheStats,
      LoadYaml ''apm/metrics.yaml'' True FileMissing]"

section \<open>Python strings\<close>

text \<open>
  The string methods the tools use, on code points below 256. \<open>str.isspace\<close>,
  \<open>str.isalpha\<close> and the regular expression class \<open>\d\<close> follow the Unicode
  categories of these code points.
\<close>

definition py_isspace :: "char \<Rightarrow> bool" where
  "py_isspace c = (of_char c \<in> {9, 10, 11, 12, 13, 28, 29, 30, 31, 32, 133, 160 :: nat})"

definition py_isdigit :: "char \<Rightarrow> bool" where
  "py_isdigit c = (48 \<le> (of_char c :: nat) \<and> (of_char c :: nat) \<le> 57)"



text \<open>\<open>s.strip()\<close>, \<open>s.replace(c, "")\<close> for a one-character \<open>c\<close>, \<open>s.split(c)\<close>.\<close>

definition py_strip :: "string \<Rightarrow> string" where
  "py_strip s = rev (dropWhile py_isspace (rev (dropWhile py_isspace s)))"

definition py_remove :: "char \<Rightarrow> string \<Rightarrow> string" where
  "py_remove c s = filter (\<lambda>x. x \<noteq> c) s"




text \<open>
  \<open>int(s)\<close> in base 10: surrounding whitespace is stripped, a sign may lead, digits
  may be grouped by single underscores; anything else raises \<open>ValueError\<close>.
\<close>

definition digit_val :: "char \<Rightarrow> nat" where
  "digit_val c = of_char c - 48"

definition digits_value :: "string \<Rightarrow> nat" where
  "digits_value s = foldl (\<lambda>a c. 10 * a + digit_val c) 0 s"

fun no_double_underscore :: "string \<Rightarrow> bool" where
  "no_double_underscore (a # b # cs) =
     (\<not> (a = CHR ''_'' \<and> b = CHR ''_'') \<and> no_double_underscore (b # cs))"
| "no_double_underscore _ = True"

definition int_literal_ok :: "string \<Rightarrow> bool" where
  "int_literal_ok b =
     (b \<noteq> [] \<and> list_all (\<lambda>c. py_isdigit c \<or> c = CHR ''_'') b
      \<and> py_isdigit (hd b) \<and> py_isdigit (last b) \<and> no_double_underscore b)"

definition py_int :: "string \<Rightarrow> exn + int" where
  "py_int s =
     (let t = py_strip s;
          neg = (t \<noteq> [] \<and> hd t = CHR ''-'');
          b = (if t \<noteq> [] \<and> (hd t = CHR ''-'' \<or> hd t = CHR ''+'') then tl t else t)
      in if int_literal_ok b
         then Inr ((if neg then - 1 else 1) * int (digits_value (py_remove CHR ''_'' b)))
         else Inl (PyException ''invalid literal for int() with base 10''))"

section \<open>Regular expressions\<close>

text \<open>
  The fragment of \<open>re\<close> that the IP patterns use: character classes, sequence and
  counted repetition \<open>r{lo,hi}\<close>. \<open>rmatch r s k\<close> holds when some prefix of \<open>s\<close>
  matches \<open>r\<close> and the rest satisfies the continuation \<open>k\<close>; \<open>re.match\<close> backtracks
  over all alternatives, so it finds a match exactly when one exists. Under
  \<open>re.match\<close> the anchor \<open>^\<close> is the start of the string, and \<open>$\<close> holds at the end
  of the string and just before a newline that ends the string.
\<close>

datatype cclass = Digit | HexDigit | Lit char

fun in_class :: "cclass \<Rightarrow> char \<Rightarrow> bool" where
  "in_class Digit c = py_isdigit c"
| "in_class HexDigit c =
     (py_isdigit c \<or> (97 \<le> (of_char c :: nat) \<and> (of_char c :: nat) \<le> 102)
      \<or> (65 \<le> (of_char c :: nat) \<and> (of_char c :: nat) \<le> 70))"
| "in_class (Lit x) c = (c = x)"

datatype regex = Atom cclass | Seq regex regex | Repeat regex nat nat

fun regex_size :: "regex \<Rightarrow> nat" where
  "regex_size (Atom cl) = 1"
| "regex_size (Seq a b) = regex_size a + regex_size b + 1"
| "regex_size (Repeat r lo hi) = regex_size r + hi + 1"

function rmatch :: "regex \<Rightarrow> string \<Rightarrow> (string \<Rightarrow> bool) \<Rightarrow> bool" where
  "rmatch (Atom cl) s k = (case s of [] \<Rightarrow> False | c # cs \<Rightarrow> in_class cl c \<and> k cs)"
| "rmatch (Seq a b) s k = rmatch a s (\<lambda>t. rmatch b t k)"
| "rmatch (Repeat r lo 0) s k = (lo = 0 \<and> k s)"
| "rmatch (Repeat r lo (Suc hi)) s k =
     (rmatch r s (\<lambda>t. rmatch (Repeat r (lo - 1) hi) t k) \<or> (lo = 0 \<and> k s))"
  by pat_completeness auto
termination
  by (relation "measure (\<lambda>(r, s, k). regex_size r)") auto

definition at_dollar :: "string \<Rightarrow> bool" where
  "at_dollar t = (t = [] \<or> t = [CHR 0x0A])"


section \<open>The API server: IP validation\<close>



text \<open>\<open>all(0 <= int(octet) <= 255 for octet in octets)\<close>, left to right.\<close>

fun all_octets :: "string list \<Rightarrow> exn + bool" where
  "all_octets [] = Inr True"
| "all_octets (octet # octets) =
     (case py_int octet of
        Inl e \<Rightarrow> Inl e
      | Inr v \<Rightarrow> if 0 \<le> v \<and> v \<le> 255 then all_octets octets else Inr False)"




section \<open>Python numbers\<close>

text \<open>
  Floating-point arithmetic as Python does it on IEEE doubles: the exact result is
  rounded to the nearest double, ties to even, with 53 significant bits, exponents
  down to the subnormal range, and overflow to an infinity. \<open>round_to_double\<close> is also
  what reading a decimal literal such as \<open>0.8423\<close> does.
\<close>

definition pow2 :: "int \<Rightarrow> rat" where
  "pow2 k = (if 0 \<le> k then 2 ^ nat k else 1 / 2 ^ nat (- k))"

text \<open>The exponent \<open>e\<close> with \<open>2^e \<le> a < 2^(e+1)\<close>, for a positive \<open>a\<close>.\<close>

definition floor_log2 :: "rat \<Rightarrow> int" where
  "floor_log2 a =
     (let e0 = bitlen (fst (quotient_of a)) - bitlen (snd (quotient_of a))
      in if pow2 e0 \<le> a then e0 else e0 - 1)"

definition round_half_even :: "rat \<Rightarrow> int" where
  "round_half_even m =
     (let f = \<lfloor>m\<rfloor>; d = m - of_int f
      in if d < 1 / 2 then f else if 1 / 2 < d then f + 1 else if even f then f else f + 1)"

definition round_to_double :: "rat \<Rightarrow> pyfloat" where
  "round_to_double x =
     (if x = 0 then Fin 0
      else let a = \<bar>x\<bar>;
               q = max (floor_log2 a) (- 1022) - 52;
               v = of_int (round_half_even (a / pow2 q)) * pow2 q
           in if pow2 1024 \<le> v then (if 0 < x then PosInf else NegInf)
              else Fin (if 0 < x then v else - v))"







text \<open>Sequencing of computations that may raise.\<close>

definition bindE :: "'e + 'a \<Rightarrow> ('a \<Rightarrow> 'e + 'b) \<Rightarrow> 'e + 'b" where
  "bindE m f = (case m of Inl e \<Rightarrow> Inl e | Inr v \<Rightarrow> f v)"


section \<open>Python attribute and item access\<close>

fun type_name :: "pyval \<Rightarrow> string" where
  "type_name PNone = ''NoneType''"
| "type_name (PBool b) = ''bool''"
| "type_name (PInt i) = ''int''"
| "type_name (PFloat f) = ''float''"
| "type_name (PStr s) = ''str''"
| "type_name (PList xs) = ''list''"
| "type_name (PDict kvs) = ''dict''"
| "type_name (PDatetime s) = ''datetime.datetime''"

text \<open>\<open>v.get(k, default)\<close>: only a \<open>dict\<close> has \<open>get\<close>.\<close>

definition py_get :: "pyval \<Rightarrow> string \<Rightarrow> pyval \<Rightarrow> exn + pyval" where
  "py_get v k dflt =
     (case v of
        PDict d \<Rightarrow> Inr (dict_get_default d k dflt)
      | _ \<Rightarrow> Inl (PyException (CHR 0x27 # type_name v @ [CHR 0x27]
                               @ '' object has no attribute '' @ [CHR 0x27] @ ''get'' @ [CHR 0x27])))"

text \<open>
  \<open>v[0]\<close>: the first element of a list or string (\<open>IndexError\<close> when empty), a
  \<open>KeyError\<close> on a \<open>dict\<close> (whose keys are strings), a \<open>TypeError\<close> otherwise.
\<close>

definition py_index0 :: "pyval \<Rightarrow> exn + pyval" where
  "py_index0 v =
     (case v of
        PList xs \<Rightarrow> (case xs of [] \<Rightarrow> Inl (PyException ''list index out of range'')
                                | x # _ \<Rightarrow> Inr x)
      | PStr s \<Rightarrow> (case s of [] \<Rightarrow> Inl (PyException ''string index out of range'')
                              | c # _ \<Rightarrow> Inr (PStr [c]))
      | PDict d \<Rightarrow> Inl (PyException ''0'')
      | _ \<Rightarrow> Inl (PyException (CHR 0x27 # type_name v @ [CHR 0x27]
                               @ '' object is not subscriptable'')))"

section \<open>The API server: tool contract\<close>


text \<open>\<open>APIBasedTool._build_url\<close>, on a base URL already stripped of trailing slashes.\<close>

definition build_url :: "string \<Rightarrow> string \<Rightarrow> string" where
  "build_url base_url endpoint = base_url @ ''/'' @ dropWhile (\<lambda>c. c = CHR ''/'') endpoint"

section \<open>The API server: input validation of the four tools\<close>










section \<open>The API server: weather tool\<close>

text \<open>
  \<open>WeatherTool.execute\<close> in \<open>src/tools/weather.py\<close>. The entries of the result are
  computed in the order of the source, so the first failing one decides the exception.
\<close>

fun collect :: "(string \<times> (exn + pyval)) list \<Rightarrow> exn + pydict" where
  "collect [] = Inr []"
| "collect ((k, m) # rest) =
     (case m of
        Inl e \<Rightarrow> Inl e
      | Inr v \<Rightarrow> (case collect rest of Inl e \<Rightarrow> Inl e | Inr kvs \<Rightarrow> Inr ((k, v) # kvs)))"

text \<open>\<open>d.get(key, [{}])[0].get("value", default)\<close>.\<close>

definition first_value :: "pyval \<Rightarrow> string \<Rightarrow> pyval \<Rightarrow> exn + pyval" where
  "first_value d key dflt =
     bindE (py_get d key (PList [PDict []])) (\<lambda>entries.
     bindE (py_index0 entries) (\<lambda>entry. py_get entry ''value'' dflt))"

definition weather_result :: "string \<Rightarrow> pyval \<Rightarrow> exn + pyval" where
  "weather_result location data =
     bindE (py_get data ''current_condition'' (PList [PDict []])) (\<lambda>conditions.
     bindE (py_index0 conditions) (\<lambda>current.
     bindE (py_get data ''nearest_area'' (PList [PDict []])) (\<lambda>areas.
     bindE (py_index0 areas) (\<lambda>location_info.
     bindE (collect
       [(''name'', first_value location_info ''areaName'' (PStr location)),
        (''country'', first_value location_info ''country'' (PStr [])),
        (''region'', first_value location_info ''region'' (PStr []))]) (\<lambda>loc.
     bindE (collect
       [(''temperature_c'', py_get current ''temp_C'' (PStr [])),
        (''temperature_f'', py_get current ''temp_F'' (PStr [])),
        (''feels_like_c'', py_get current ''FeelsLikeC'' (PStr [])),
        (''feels_like_f'', py_get current ''FeelsLikeF'' (PStr [])),
        (''condition'', first_value current ''weatherDesc'' (PStr [])),
        (''humidity'', py_get current ''humidity'' (PStr [])),
        (''precipitation_mm'', py_get current ''precipMM'' (PStr [])),
        (''pressure_mb'', py_get current ''pressure'' (PStr [])),
        (''wind_speed_kmph'', py_get current ''windspeedKmph'' (PStr [])),
        (''wind_direction'', py_get current ''winddir16Point'' (PStr [])),
        (''cloud_cover'', py_get current ''cloudcover'' (PStr [])),
        (''uv_index'', py_get current ''uvIndex'' (PStr [])),
        (''visibility_km'', py_get current ''visibility'' (PStr []))]) (\<lambda>cur.
     bindE (py_get current ''observation_time'' (PStr [])) (\<lambda>observation_time.
     Inr (PDict [(''location'', PDict loc), (''current'', PDict cur),
                 (''observation_time'', observation_time)]))))))))"

definition weather_execute ::
  "settings \<Rightarrow> string \<Rightarrow> string \<Rightarrow> transport \<Rightarrow> nat \<Rightarrow> (exn + pyval) \<times> nat" where
  "weather_execute cfg location format tr n =
     (let url = build_url ''https://wttr.in'' location;
          (fetched, n', sleeps) = get (aenter (HTTPClient_init cfg None None None)) url tr n
      in (case bindE fetched (weather_result location) of
            Inr result \<Rightarrow> (Inr result, n')
          | Inl e \<Rightarrow>
              (Inl (ToolExecutionError
                      (''Failed to fetch weather for '' @ location @ '': '' @ str_exn e) []
                      (Some e)), n')))"

section \<open>The API server: exchange rate tool\<close>









text \<open>
  A transport answer 200 with a JSON body, and the upstream answer of the example:
  the rate mapping \<open>{"EUR": 0.8423}\<close>.
\<close>

definition json_response :: "pyval \<Rightarrow> response" where
  "json_response v = \<lparr> status_code = 200, body_text = [], json_body = Inr v \<rparr>"


text \<open>An upstream weather body with one temperature and one country only.\<close>

definition london_body :: pydict where
  "london_body =
     [(''current_condition'', PList [PDict [(''temp_C'', PStr ''15'')]]),
      (''nearest_area'', PList [PDict [(''country'', PList [PDict [(''value'', PStr ''United Kingdom'')]])]])]"

section \<open>The API server: rejected input\<close>





section \<open>The monitoring server: interpreter and environment\<close>

text \<open>
  The mock data tools shape fixture values, which are dynamically typed. What the
  interpreter does with such values beyond attribute access (rendering with \<open>str()\<close>,
  hashing, comparing, arithmetic, parsing timestamps) and what the process reads from
  its environment (clock, random UUIDs) are parameters of the model, gathered in one
  record; every property below holds for every such runtime. \<open>uuid4 rt i j\<close> is the
  hexadecimal form of the \<open>j\<close>-th UUID drawn while record \<open>i\<close> is shaped, \<open>now_iso rt i\<close>
  the clock reading taken there, \<open>window_start rt minutes\<close> the date
  \<open>now - timedelta(minutes=minutes)\<close>, or the \<open>OverflowError\<close> raised when that date
  cannot be represented.
\<close>

record runtime =
  str_of :: "pyval \<Rightarrow> string"
  hash_of :: "pyval \<Rightarrow> mexn + int"
  py_eq :: "pyval \<Rightarrow> pyval \<Rightarrow> bool"
  py_gt :: "pyval \<Rightarrow> pyval \<Rightarrow> mexn + bool"
  py_le :: "pyval \<Rightarrow> pyval \<Rightarrow> mexn + bool"
  py_add :: "pyval \<Rightarrow> pyval \<Rightarrow> mexn + pyval"
  py_times :: "pyval \<Rightarrow> pyval \<Rightarrow> mexn + pyval"
  py_truediv :: "pyval \<Rightarrow> pyval \<Rightarrow> mexn + pyval"
  int_of :: "pyval \<Rightarrow> mexn + pyval"
  time_time :: int
  now_iso :: "nat \<Rightarrow> string"
  today :: string
  uuid4 :: "nat \<Rightarrow> nat \<Rightarrow> string"
  span_start_us :: "pyval \<Rightarrow> mexn + pyval"
  process_hostname :: "pyval \<Rightarrow> pyval \<Rightarrow> mexn + string"
  window_start :: "int \<Rightarrow> mexn + string"

text \<open>An exception of the interpreter, carried into the monitoring server's type.\<close>

definition lift_py :: "exn + 'a \<Rightarrow> mexn + 'a" where
  "lift_py m = (case m of Inl e \<Rightarrow> Inl (PyError ''Exception'' (str_exn e)) | Inr v \<Rightarrow> Inr v)"

definition m_get :: "pyval \<Rightarrow> string \<Rightarrow> pyval \<Rightarrow> mexn + pyval" where
  "m_get v k dflt = lift_py (py_get v k dflt)"

text \<open>\<open>len(v)\<close>.\<close>

definition py_len :: "pyval \<Rightarrow> mexn + nat" where
  "py_len v =
     (case v of
        PList xs \<Rightarrow> Inr (length xs)
      | PDict d \<Rightarrow> Inr (length d)
      | PStr s \<Rightarrow> Inr (length s)
      | _ \<Rightarrow> Inl (PyError ''TypeError''
                   (''object of type '' @ [CHR 0x27] @ type_name v @ [CHR 0x27] @ '' has no len()'')))"

text \<open>
  The receiver of the first \<open>.get\<close> in a loop body: a \<open>dict\<close>, or \<open>AttributeError\<close>.
  Once it is a \<open>dict\<close>, the further \<open>.get\<close> calls on it cannot fail.
\<close>

definition as_dict :: "pyval \<Rightarrow> mexn + pydict" where
  "as_dict v =
     (case v of
        PDict d \<Rightarrow> Inr d
      | _ \<Rightarrow> Inl (PyError ''AttributeError''
                   (CHR 0x27 # type_name v @ [CHR 0x27] @ '' object has no attribute ''
                    @ [CHR 0x27] @ ''get'' @ [CHR 0x27])))"

text \<open>\<open>for x in v\<close>: the elements of a list, the keys of a dict, the characters of a string.\<close>

definition py_iter :: "pyval \<Rightarrow> mexn + pyval list" where
  "py_iter v =
     (case v of
        PList xs \<Rightarrow> Inr xs
      | PDict d \<Rightarrow> Inr (map (\<lambda>kv. PStr (fst kv)) d)
      | PStr s \<Rightarrow> Inr (map (\<lambda>c. PStr [c]) s)
      | _ \<Rightarrow> Inl (PyError ''TypeError''
                   (CHR 0x27 # type_name v @ [CHR 0x27] @ '' object is not iterable'')))"

text \<open>A loop that appends one shaped value per element and stops at the first exception.\<close>

fun mapM :: "('a \<Rightarrow> mexn + 'b) \<Rightarrow> 'a list \<Rightarrow> mexn + 'b list" where
  "mapM f [] = Inr []"
| "mapM f (x # xs) =
     (case f x of
        Inl e \<Rightarrow> Inl e
      | Inr y \<Rightarrow> (case mapM f xs of Inl e \<Rightarrow> Inl e | Inr ys \<Rightarrow> Inr (y # ys)))"

text \<open>\<open>enumerate(xs)\<close>.\<close>

definition enumerate_list :: "'a list \<Rightarrow> (nat \<times> 'a) list" where
  "enumerate_list xs = zip [0..<length xs] xs"

text \<open>
  \<open>json.dumps(doc, indent=2)\<close>. The model keeps the document and not its text. A
  timestamp that YAML parsed into a \<open>datetime\<close> is not serializable: without
  \<open>default=str\<close> the call raises \<open>TypeError\<close>, with it the value is rendered by \<open>str\<close>.
\<close>

fun has_datetime :: "pyval \<Rightarrow> bool" where
  "has_datetime (PDatetime s) = True"
| "has_datetime (PList xs) = list_ex has_datetime xs"
| "has_datetime (PDict kvs) = list_ex (\<lambda>kv. has_datetime (snd kv)) kvs"
| "has_datetime _ = False"

fun stringify_datetimes :: "(pyval \<Rightarrow> string) \<Rightarrow> pyval \<Rightarrow> pyval" where
  "stringify_datetimes f (PDatetime s) = PStr (f (PDatetime s))"
| "stringify_datetimes f (PList xs) = PList (map (stringify_datetimes f) xs)"
| "stringify_datetimes f (PDict kvs) =
     PDict (map (\<lambda>kv. (fst kv, stringify_datetimes f (snd kv))) kvs)"
| "stringify_datetimes f v = v"

definition json_dumps :: "pyval \<Rightarrow> mexn + pyval" where
  "json_dumps doc =
     (if has_datetime doc
      then Inl (PyError ''TypeError'' ''Object of type datetime is not JSON serializable'')
      else Inr doc)"

definition json_dumps_default_str :: "runtime \<Rightarrow> pyval \<Rightarrow> mexn + pyval" where
  "json_dumps_default_str rt doc = Inr (stringify_datetimes (str_of rt) doc)"

text \<open>
  The two ways the tools end their \<open>try\<close> block. Four tools and the health check
  re-raise \<open>TimeRangeError\<close> and \<open>FilterError\<close> and wrap every other exception; three
  tools wrap the two validation errors as well, under their own message.
\<close>

definition reraise_validation :: "string \<Rightarrow> mexn \<Rightarrow> mexn" where
  "reraise_validation prefix e =
     (case e of
        TimeRangeError m \<Rightarrow> e
      | FilterError m \<Rightarrow> e
      | _ \<Rightarrow> Mon_ToolExecutionError (prefix @ str_mexn e) (Some e))"

definition wrap_validation :: "string \<Rightarrow> mexn \<Rightarrow> mexn" where
  "wrap_validation prefix e =
     (case e of
        TimeRangeError m \<Rightarrow>
          Mon_ToolExecutionError (''Input validation failed: '' @ str_mexn e) (Some e)
      | FilterError m \<Rightarrow>
          Mon_ToolExecutionError (''Input validation failed: '' @ str_mexn e) (Some e)
      | _ \<Rightarrow> Mon_ToolExecutionError (prefix @ str_mexn e) (Some e))"

text \<open>
  The outcome of one \<open>execute\<close>: the document returned or the exception raised, the
  loader afterwards, and the paths the tool asked the loader for, in order.
\<close>

type_synonym outcome = "(mexn + pyval) \<times> DataLoader \<times> string list"

definition finish :: "(mexn \<Rightarrow> mexn) \<Rightarrow> outcome \<Rightarrow> outcome" where
  "finish handler out =
     (case out of
        (Inl e, dl, paths) \<Rightarrow> (Inl (handler e), dl, paths)
      | (Inr v, dl, paths) \<Rightarrow> (Inr v, dl, paths))"

text \<open>One call of a named loader, followed by the shaping of what it returned.\<close>

definition with_fixture ::
  "(string \<Rightarrow> file_read) \<Rightarrow> DataLoader \<Rightarrow> string
     \<Rightarrow> (DataLoader \<Rightarrow> file_read \<Rightarrow> (mexn + pyval) \<times> DataLoader)
     \<Rightarrow> (pyval \<Rightarrow> mexn + pyval) \<Rightarrow> outcome" where
  "with_fixture disk dl path loader shape =
     (case loader dl (disk path) of
        (loaded, dl') \<Rightarrow> (bindE loaded shape, dl', [path]))"

text \<open>The list of valid choices, as the messages print it.\<close>

definition str_list :: "string list \<Rightarrow> string" where
  "str_list xs =
     ''['' @ concat (map (\<lambda>(i, x). (if i = 0 then [] else '', '') @ [CHR 0x27] @ x @ [CHR 0x27])
                      (enumerate_list xs)) @ '']''"

section \<open>The monitoring server: log tools\<close>

text \<open>The SQL result envelope of the two database-format tools.\<close>

definition sql_response :: "string \<Rightarrow> pyval list \<Rightarrow> pyval" where
  "sql_response query rows =
     PDict [(''query'', PStr query), (''rowCount'', PInt (int (length rows))),
            (''rows'', PList rows)]"

text \<open>\<open>InterfaceLogsTool.execute\<close> in \<open>src/tools/interface_logs.py\<close>.\<close>

definition interface_row :: "pyval \<Rightarrow> mexn + pyval" where
  "interface_row entry =
     bindE (as_dict entry) (\<lambda>l. Inr (PDict
       [(''log_id'', dict_get_default l ''id'' (PStr ''unknown'')),
        (''timestamp'', if truthy (dict_get l ''created_at'') then dict_get l ''created_at''
                        else dict_get l ''started_at''),
        (''system_name'', dict_get_default l ''system_name'' (PStr ''unknown'')),
        (''interface_name'', dict_get_default l ''interface_name'' (PStr ''unknown'')),
        (''direction'', dict_get_default l ''direction'' (PStr ''OUTBOUND'')),
        (''status'', dict_get_default l ''status'' (PStr ''UNKNOWN'')),
        (''protocol'', dict_get_default l ''protocol'' (PStr ''REST'')),
        (''source_system'', dict_get_default l ''source_system'' (PStr ''unknown'')),
        (''target_system'', dict_get_default l ''target_system'' (PStr ''unknown'')),
        (''record_count'', dict_get_default l ''record_count'' (PInt 0)),
        (''bytes_transferred'', dict_get_default l ''bytes_transferred'' (PInt 0)),
        (''duration_seconds'', dict_get_default l ''duration_seconds'' (PInt 0)),
        (''retry_count'', dict_get_default l ''retry_count'' (PInt 0)),
        (''error_message'', dict_get l ''error_message''),
        (''correlation_id'', dict_get l ''correlation_id''),
        (''trace_id'', dict_get l ''trace_id'')]))"

definition interface_logs_execute ::
  "(string \<Rightarrow> file_read) \<Rightarrow> DataLoader \<Rightarrow> string \<Rightarrow> int \<Rightarrow> string option \<Rightarrow> outcome" where
  "interface_logs_execute disk dl system_name hours status =
     finish (reraise_validation ''Failed to check interface logs: '')
       (if hours < 0 then (Inl (TimeRangeError ''Hours must be non-negative''), dl, [])
        else with_fixture disk dl ''logs/interface_logs.yaml'' load_interface_logs (\<lambda>data.
          bindE (m_get data ''interface_logs'' (PList [])) (\<lambda>logs.
          bindE (py_iter logs) (\<lambda>filtered_logs.
          bindE (mapM interface_row filtered_logs) (\<lambda>rows.
          json_dumps
            (sql_response ''SELECT * FROM interface_logs ORDER BY timestamp DESC'' rows))))))"

text \<open>\<open>BatchLogsTool.execute\<close> in \<open>src/tools/batch_logs.py\<close>.\<close>

definition batch_row :: "runtime \<Rightarrow> pyval \<Rightarrow> mexn + pyval" where
  "batch_row rt job =
     bindE (as_dict job) (\<lambda>j.
       let job_status = dict_get_default j ''status'' (PStr ''UNKNOWN'');
           row =
             [(''job_id'', dict_get_default j ''job_id'' (PStr ''unknown'')),
              (''job_name'', dict_get_default j ''job_name'' (PStr ''unknown'')),
              (''job_group'', dict_get_default j ''job_group'' (PStr ''DEFAULT'')),
              (''job_type'', dict_get_default j ''job_type'' (PStr ''BATCH'')),
              (''priority'', dict_get_default j ''priority'' (PStr ''NORMAL'')),
              (''status'', job_status),
              (''scheduled_time'', dict_get j ''scheduled_time''),
              (''start_time'', dict_get j ''start_time''),
              (''end_time'', dict_get j ''end_time''),
              (''duration_seconds'', dict_get_default j ''duration_seconds'' (PInt 0)),
              (''exit_code'', if job_status = PStr ''SUCCESS'' then PInt 0
                              else if job_status = PStr ''FAILED'' then PInt 1 else PNone),
              (''records_processed'', dict_get_default j ''records_processed'' (PInt 0)),
              (''records_failed'', dict_get_default j ''records_failed'' (PInt 0)),
              (''retry_count'', dict_get_default j ''retry_count'' (PInt 0)),
              (''max_retries'', dict_get_default j ''max_retries'' (PInt 3)),
              (''run_as_user'', dict_get_default j ''run_as_user'' (PStr ''batch'')),
              (''host'', dict_get_default j ''host'' (PStr ''batch-server-01'')),
              (''correlation_id'', dict_get j ''correlation_id''),
              (''log_file'', PStr (''/var/log/batch/''
                 @ str_of rt (dict_get_default j ''job_id'' (PStr ''unknown'')) @ ''.log''))];
           resource_usage = dict_get_default j ''resource_usage'' (PDict [])
       in bindE (if truthy resource_usage
                 then bindE (as_dict resource_usage) (\<lambda>ru. Inr (row @
                        [(''cpu_percent_avg'', dict_get ru ''cpu_percent_avg''),
                         (''memory_mb_peak'', dict_get ru ''memory_mb_peak''),
                         (''disk_io_mb'', dict_get ru ''disk_io_mb'')]))
                 else Inr row) (\<lambda>row.
          Inr (PDict
            (if job_status = PStr ''FAILED''
             then row @ [(''error_log'', dict_get_default j ''error_message''
                    (PStr (''ERROR: Job execution failed'' @ [CHR 0x0A]
                           @ ''DETAIL: See log file for details'')))]
             else row))))"

definition batch_logs_execute ::
  "runtime \<Rightarrow> (string \<Rightarrow> file_read) \<Rightarrow> DataLoader \<Rightarrow> string \<Rightarrow> int \<Rightarrow> string option
     \<Rightarrow> outcome" where
  "batch_logs_execute rt disk dl job_name hours status =
     finish (reraise_validation ''Failed to check batch logs: '')
       (if hours < 0 then (Inl (TimeRangeError ''Hours must be non-negative''), dl, [])
        else with_fixture disk dl ''logs/batch_logs.yaml'' load_batch_logs (\<lambda>data.
          bindE (m_get data ''batch_jobs'' (PList [])) (\<lambda>jobs.
          bindE (py_iter jobs) (\<lambda>filtered_jobs.
          bindE (mapM (batch_row rt) filtered_jobs) (\<lambda>rows.
          json_dumps
            (sql_response ''SELECT * FROM batch_job_logs ORDER BY start_time DESC'' rows))))))"

text \<open>
  \<open>ApplicationLogsTool.execute\<close> in \<open>src/tools/application_logs.py\<close>. The defaults
  of \<open>.get\<close> are evaluated whether they are needed or not, so every hit draws four
  UUIDs and hashes the message.
\<close>

definition uuid_str :: "string \<Rightarrow> string" where
  "uuid_str h =
     take 8 h @ ''-'' @ take 4 (drop 8 h) @ ''-'' @ take 4 (drop 12 h) @ ''-''
     @ take 4 (drop 16 h) @ ''-'' @ drop 20 h"

definition default_stack_trace :: "runtime \<Rightarrow> pydict \<Rightarrow> string" where
  "default_stack_trace rt l =
     ''java.lang.Exception: '' @ str_of rt (dict_get_default l ''message'' (PStr ''Unknown error''))
     @ [CHR 0x0A, CHR 0x09] @ ''at com.company.service.Handler.process(Handler.java:123)''
     @ [CHR 0x0A, CHR 0x09] @ ''at com.company.service.Controller.handle(Controller.java:45)''"

definition app_log_source :: "runtime \<Rightarrow> nat \<Rightarrow> pydict \<Rightarrow> int \<Rightarrow> pydict" where
  "app_log_source rt i l h =
     [(''@timestamp'', dict_get_default l ''timestamp'' (PStr (now_iso rt i))),
      (''level'', dict_get_default l ''level'' (PStr ''INFO'')),
      (''logger_name'', dict_get_default l ''logger''
         (PStr (''com.company.'' @ str_of rt (dict_get_default l ''service'' (PStr ''unknown''))
                @ ''.Service''))),
      (''message'', dict_get_default l ''message'' (PStr [])),
      (''thread_name'', dict_get_default l ''thread''
         (PStr (''http-nio-8080-exec-'' @ str_int (h mod 50)))),
      (''service'', dict_get_default l ''service'' (PStr ''unknown'')),
      (''instance'', dict_get_default l ''instance''
         (PStr (str_of rt (dict_get_default l ''service'' (PStr ''unknown'')) @ ''-''
                @ take 8 (uuid4 rt i 1)))),
      (''namespace'', dict_get_default l ''namespace'' (PStr ''production'')),
      (''version'', dict_get_default l ''version'' (PStr ''unknown'')),
      (''trace_id'', dict_get_default l ''trace_id'' (PStr (uuid4 rt i 2))),
      (''span_id'', dict_get_default l ''span_id'' (PStr (take 16 (uuid4 rt i 3)))),
      (''parent_span_id'', dict_get l ''parent_span_id''),
      (''request_id'', dict_get l ''request_id'')]"

definition app_log_hit :: "runtime \<Rightarrow> nat \<times> pyval \<Rightarrow> mexn + pyval" where
  "app_log_hit rt il =
     (case il of (i, entry) \<Rightarrow>
     bindE (as_dict entry) (\<lambda>l.
       let exception = dict_get_default l ''exception'' (PDict []);
           context = dict_get_default l ''context'' (PDict [])
       in bindE (hash_of rt (dict_get_default l ''message'' (PStr []))) (\<lambda>h.
          bindE (if dict_get l ''level'' = PStr ''ERROR'' \<and> truthy exception
                 then bindE (as_dict exception) (\<lambda>ex. Inr (app_log_source rt i l h @
                        [(''exception_class'',
                            dict_get_default ex ''class'' (PStr ''java.lang.Exception'')),
                         (''exception_message'', dict_get_default ex ''message''
                            (dict_get_default l ''message'' (PStr ''Unknown error''))),
                         (''stack_trace'', dict_get_default ex ''stacktrace''
                            (PStr (default_stack_trace rt l)))]))
                 else if dict_get l ''level'' = PStr ''ERROR''
                 then Inr (app_log_source rt i l h
                           @ [(''stack_trace'', PStr (default_stack_trace rt l))])
                 else Inr (app_log_source rt i l h)) (\<lambda>source.
          bindE (if truthy context
                 then bindE (as_dict context) (\<lambda>c. Inr (source @ [(''context'', context)]
                        @ (if truthy (dict_get c ''transaction_id'')
                           then [(''transaction_id'', dict_get c ''transaction_id'')] else [])
                        @ (if truthy (dict_get c ''customer_id'')
                           then [(''customer_id'', dict_get c ''customer_id'')] else [])))
                 else Inr source) (\<lambda>source.
          Inr (PDict
            [(''_index'', PStr (''app-logs-'' @ today rt)),
             (''_id'', PStr (take 12 (uuid_str (uuid4 rt i 0)))),
             (''_score'', PNone),
             (''_source'', PDict
                (if truthy (dict_get l ''user_id'')
                 then source @ [(''user_id'', dict_get l ''user_id'')]
                 else source))]))))))"

definition es_response :: "pyval list \<Rightarrow> pyval" where
  "es_response hits =
     PDict
       [(''took'', PInt 5),
        (''timed_out'', PBool False),
        (''_shards'', PDict [(''total'', PInt 5), (''successful'', PInt 5),
                             (''skipped'', PInt 0), (''failed'', PInt 0)]),
        (''hits'', PDict
           [(''total'', PDict [(''value'', PInt (int (length hits))), (''relation'', PStr ''eq'')]),
            (''max_score'', PNone),
            (''hits'', PList hits)])]"

definition valid_levels :: "string list" where
  "valid_levels = [''DEBUG'', ''INFO'', ''WARN'', ''ERROR'']"

definition application_logs_execute ::
  "runtime \<Rightarrow> (string \<Rightarrow> file_read) \<Rightarrow> DataLoader \<Rightarrow> string \<Rightarrow> int \<Rightarrow> string
     \<Rightarrow> string option \<Rightarrow> outcome" where
  "application_logs_execute rt disk dl service minutes level search_pattern =
     finish (wrap_validation ''Failed to check application logs: '')
       (if minutes < 0 then (Inl (TimeRangeError ''Minutes must be non-negative''), dl, [])
        else if level \<notin> set valid_levels
        then (Inl (FilterError (''Level must be one of '' @ str_list valid_levels)), dl, [])
        else with_fixture disk dl ''logs/application_logs.yaml'' load_application_logs (\<lambda>data.
          bindE (m_get data ''application_logs'' (PList [])) (\<lambda>logs.
          bindE (py_iter logs) (\<lambda>filtered_logs.
          bindE (mapM (app_log_hit rt) (enumerate_list filtered_logs)) (\<lambda>hits.
          json_dumps_default_str rt (es_response hits))))))"

section \<open>The monitoring server: performance, APM and health tools\<close>

text \<open>One sample of a Prometheus vector, and the vector response around the samples.\<close>

definition prom_sample :: "runtime \<Rightarrow> string \<Rightarrow> pydict \<Rightarrow> string \<Rightarrow> pyval" where
  "prom_sample rt name labels v =
     PDict [(''metric'', PDict ((''__name__'', PStr name) # labels)),
            (''value'', PList [PInt (time_time rt), PStr v])]"

definition prom_vector :: "pyval list \<Rightarrow> pyval" where
  "prom_vector samples =
     PDict [(''status'', PStr ''success''),
            (''data'', PDict [(''resultType'', PStr ''vector''), (''result'', PList samples)])]"

text \<open>\<open>for m in metrics\<close> with a body whose only receiver of \<open>.get\<close> is \<open>m\<close>.\<close>

definition for_each_dict :: "pyval \<Rightarrow> (pydict \<Rightarrow> 'a) \<Rightarrow> mexn + 'a list" where
  "for_each_dict v f =
     bindE (py_iter v) (\<lambda>xs. mapM (\<lambda>x. bindE (as_dict x) (\<lambda>d. Inr (f d))) xs)"

text \<open>\<open>ServerPerformanceTool.execute\<close> in \<open>src/tools/server_performance.py\<close>.\<close>

definition node_instance :: "runtime \<Rightarrow> pydict \<Rightarrow> pyval" where
  "node_instance rt m = PStr (str_of rt (dict_get_default m ''node'' (PStr ''unknown'')) @ '':9100'')"

definition cpu_sample :: "runtime \<Rightarrow> pydict \<Rightarrow> pyval" where
  "cpu_sample rt m =
     prom_sample rt ''node_cpu_usage_percent''
       [(''instance'', node_instance rt m), (''job'', PStr ''node-exporter''),
        (''zone'', dict_get_default m ''zone'' (PStr ''us-east-1a''))]
       (str_of rt (dict_get_default m ''cpu_usage_percent'' (PInt 0)))"

definition memory_sample :: "runtime \<Rightarrow> pydict \<Rightarrow> pyval" where
  "memory_sample rt m =
     prom_sample rt ''node_memory_usage_percent''
       [(''instance'', node_instance rt m), (''job'', PStr ''node-exporter'')]
       (str_of rt (dict_get_default m ''memory_usage_percent'' (PInt 0)))"

definition disk_sample :: "runtime \<Rightarrow> string \<Rightarrow> string \<Rightarrow> pydict \<Rightarrow> pyval" where
  "disk_sample rt name key m =
     prom_sample rt name [(''instance'', node_instance rt m), (''device'', PStr ''sda'')]
       (str_of rt (dict_get_default m key (PInt 0)))"

definition network_sample :: "runtime \<Rightarrow> string \<Rightarrow> string \<Rightarrow> pydict \<Rightarrow> pyval" where
  "network_sample rt name key m =
     prom_sample rt name [(''instance'', node_instance rt m), (''device'', PStr ''eth0'')]
       (str_of rt (dict_get_default m key (PInt 0)))"

definition metric_family :: "string \<Rightarrow> pyval list \<Rightarrow> pyval" where
  "metric_family query samples = PDict [(''query'', PStr query), (''response'', prom_vector samples)]"

definition cpu_query :: string where
  "cpu_query =
     ''100 - (avg by (instance) (irate(node_cpu_seconds_total{mode='' @ [CHR 0x22] @ ''idle''
     @ [CHR 0x22] @ ''}[5m])) * 100)''"

definition memory_query :: string where
  "memory_query =
     ''100 * (1 - ((node_memory_MemAvailable_bytes) / (node_memory_MemTotal_bytes)))''"

definition disk_io_query :: string where
  "disk_io_query = ''rate(node_disk_read_bytes_total[5m]) / 1024 / 1024''"

definition network_query :: string where
  "network_query = ''rate(node_network_receive_bytes_total[5m]) / 1024 / 1024''"

definition valid_types :: "string list" where
  "valid_types = [''cpu'', ''memory'', ''disk_io'', ''network'', ''all'']"

definition server_performance_execute ::
  "runtime \<Rightarrow> (string \<Rightarrow> file_read) \<Rightarrow> DataLoader \<Rightarrow> string \<Rightarrow> string \<Rightarrow> int \<Rightarrow> outcome" where
  "server_performance_execute rt disk dl node metric_type minutes =
     finish (wrap_validation ''Failed to view server performance: '')
       (if minutes < 0 then (Inl (TimeRangeError ''Minutes must be non-negative''), dl, [])
        else if metric_type \<notin> set valid_types
        then (Inl (FilterError (''Metric type must be one of '' @ str_list valid_types)), dl, [])
        else with_fixture disk dl ''performance/server_metrics.yaml'' load_server_metrics (\<lambda>data.
          bindE (m_get data ''server_metrics'' (PList [])) (\<lambda>metrics.
          bindE (if metric_type \<in> set [''cpu'', ''all'']
                 then bindE (for_each_dict metrics (cpu_sample rt)) (\<lambda>cpu_results.
                   Inr [(''cpu_usage'', metric_family cpu_query cpu_results)])
                 else Inr []) (\<lambda>cpu.
          bindE (if metric_type \<in> set [''memory'', ''all'']
                 then bindE (for_each_dict metrics (memory_sample rt)) (\<lambda>memory_results.
                   Inr [(''memory_usage'', metric_family memory_query memory_results)])
                 else Inr []) (\<lambda>memory.
          bindE (if metric_type \<in> set [''disk_io'', ''all'']
                 then bindE (for_each_dict metrics (\<lambda>m.
                        (disk_sample rt ''node_disk_read_mbps'' ''disk_io_read_mbps'' m,
                         disk_sample rt ''node_disk_write_mbps'' ''disk_io_write_mbps'' m)))
                   (\<lambda>disk_results.
                   Inr [(''disk_io'', metric_family disk_io_query
                          (map fst disk_results @ map snd disk_results))])
                 else Inr []) (\<lambda>disk_io.
          bindE (if metric_type \<in> set [''network'', ''all'']
                 then bindE (for_each_dict metrics (\<lambda>m.
                        [network_sample rt ''node_network_receive_mbps'' ''network_rx_mbps'' m,
                         network_sample rt ''node_network_transmit_mbps'' ''network_tx_mbps'' m]))
                   (\<lambda>network_results.
                   Inr [(''network'', metric_family network_query (concat network_results))])
                 else Inr []) (\<lambda>network.
          json_dumps_default_str rt (PDict
            [(''timestamp'', PStr (now_iso rt 0)),
             (''source'', PStr ''prometheus''),
             (''metrics'', PDict (cpu @ memory @ disk_io @ network))]))))))))"

text \<open>
  \<open>ApplicationPerformanceTool.execute\<close> in \<open>src/tools/app_performance.py\<close>, with
  \<open>_format_section\<close> and \<open>_format_result\<close> of \<open>src/tools/base.py\<close>. This tool returns
  a text report. The two marks are written as their UTF-8 bytes.
\<close>

fun join_with :: "string \<Rightarrow> string list \<Rightarrow> string" where
  "join_with sep [] = []"
| "join_with sep [x] = x"
| "join_with sep (x # y # ys) = x @ sep @ join_with sep (y # ys)"

definition format_section :: "string \<Rightarrow> string list \<Rightarrow> string" where
  "format_section title items =
     (if items = [] then ''['' @ title @ '']: No items'' @ [CHR 0x0A]
      else join_with [CHR 0x0A]
             (([CHR 0x0A] @ title @ '':'')
              # map (\<lambda>(i, item). ''  '' @ str_nat (i + 1) @ ''. '' @ item) (enumerate_list items)))"

definition format_result :: "string \<Rightarrow> string \<Rightarrow> string" where
  "format_result title content =
     (let separator = replicate 60 (CHR ''='')
      in separator @ [CHR 0x0A] @ title @ [CHR 0x0A] @ separator @ [CHR 0x0A] @ content
         @ [CHR 0x0A])"

definition warning_mark :: string where
  "warning_mark = [CHR 0xE2, CHR 0x9A, CHR 0xA0, CHR 0xEF, CHR 0xB8, CHR 0x8F, CHR 0x20]"

definition check_mark :: string where
  "check_mark = [CHR 0xE2, CHR 0x9C, CHR 0x93, CHR 0x20]"

text \<open>
  \<open>services_dict\<close>, in insertion order. Looking a key up hashes it, which raises
  for an unhashable service value.
\<close>

fun add_group :: "runtime \<Rightarrow> pyval \<Rightarrow> pydict \<Rightarrow> (pyval \<times> pydict list) list
    \<Rightarrow> (pyval \<times> pydict list) list" where
  "add_group rt svc metric [] = [(svc, [metric])]"
| "add_group rt svc metric ((k, ms) # gs) =
     (if py_eq rt k svc then (k, ms @ [metric]) # gs
      else (k, ms) # add_group rt svc metric gs)"

fun group_metrics :: "runtime \<Rightarrow> pyval list \<Rightarrow> (pyval \<times> pydict list) list
    \<Rightarrow> mexn + (pyval \<times> pydict list) list" where
  "group_metrics rt [] services_dict = Inr services_dict"
| "group_metrics rt (metric # rest) services_dict =
     bindE (as_dict metric) (\<lambda>m.
       let svc = dict_get_default m ''service'' (PStr ''unknown'')
       in bindE (hash_of rt svc) (\<lambda>h.
            group_metrics rt rest (add_group rt svc m services_dict)))"

definition apm_item :: "runtime \<Rightarrow> pydict \<Rightarrow> mexn + string" where
  "apm_item rt metric =
     bindE (as_dict (dict_get_default metric ''metrics'' (PDict []))) (\<lambda>nested_metrics.
       let endpoint_name = dict_get_default metric ''operation''
                             (dict_get_default metric ''endpoint'' (PStr ''N/A''));
           avg_latency = dict_get_default nested_metrics ''trace_duration_p50_ms''
                           (dict_get_default metric ''avg_latency_ms'' (PInt 0));
           p95_latency = dict_get_default nested_metrics ''trace_duration_p95_ms''
                           (dict_get_default metric ''p95_latency_ms'' (PInt 0));
           p99_latency = dict_get_default nested_metrics ''trace_duration_p99_ms''
                           (dict_get_default metric ''p99_latency_ms'' (PInt 0));
           error_rate = dict_get_default nested_metrics ''error_rate_percent''
                          (dict_get_default metric ''error_rate_percent'' (PInt 0));
           throughput = dict_get_default nested_metrics ''request_rate_per_sec''
                          (dict_get_default metric ''throughput_rps'' (PInt 0))
       in bindE (py_add rt (dict_get_default nested_metrics ''success_count'' (PInt 0))
                           (dict_get_default nested_metrics ''error_count'' (PInt 0))) (\<lambda>total.
          let request_count = (if py_eq rt total (PInt 0)
                               then dict_get_default metric ''request_count'' (PInt 0)
                               else total)
          in bindE (py_gt rt avg_latency (PInt 500)) (\<lambda>slow.
             bindE (py_gt rt error_rate (PFloat (Fin 1))) (\<lambda>failing.
             Inr (''Endpoint: '' @ str_of rt endpoint_name @ [CHR 0x0A]
                  @ ''    '' @ (if slow then warning_mark else check_mark)
                  @ ''Latency: avg '' @ str_of rt avg_latency @ ''ms, p95 ''
                  @ str_of rt p95_latency @ ''ms, p99 '' @ str_of rt p99_latency @ ''ms''
                  @ [CHR 0x0A]
                  @ ''    '' @ (if failing then warning_mark else check_mark)
                  @ ''Error Rate: '' @ str_of rt error_rate @ ''%'' @ [CHR 0x0A]
                  @ ''    Throughput: '' @ str_of rt throughput @ '' req/s (''
                  @ str_of rt request_count @ '' requests)'')))))"

definition apm_section :: "runtime \<Rightarrow> pyval \<times> pydict list \<Rightarrow> mexn + string" where
  "apm_section rt g =
     (case g of (svc, svc_metrics) \<Rightarrow>
        bindE (mapM (apm_item rt) svc_metrics) (\<lambda>items.
          Inr (format_section (''Service: '' @ str_of rt svc) items)))"

text \<open>The sections of the report, one per service, each with one item per record.\<close>

definition apm_sections :: "runtime \<Rightarrow> pyval \<Rightarrow> mexn + string list" where
  "apm_sections rt filtered_metrics =
     bindE (py_iter filtered_metrics) (\<lambda>ms.
     bindE (group_metrics rt ms []) (\<lambda>services_dict.
     mapM (apm_section rt) services_dict))"

text \<open>The first line of the report: the only place where \<open>service\<close> and \<open>minutes\<close> appear.\<close>

definition no_metrics_line :: "string \<Rightarrow> int \<Rightarrow> string" where
  "no_metrics_line service minutes =
     ''No APM metrics found for '' @ service @ '' in the last '' @ str_int minutes
     @ '' minute(s)''"

definition found_line :: "nat \<Rightarrow> string \<Rightarrow> string" where
  "found_line n service =
     ''Found '' @ str_nat n @ '' APM metric(s) for '' @ service @ '':'' @ [CHR 0x0A]"

definition apm_result_lines :: "runtime \<Rightarrow> string \<Rightarrow> int \<Rightarrow> pyval \<Rightarrow> mexn + string list" where
  "apm_result_lines rt service minutes filtered_metrics =
     (if \<not> truthy filtered_metrics
      then Inr [no_metrics_line service minutes]
      else bindE (py_len filtered_metrics) (\<lambda>n.
           bindE (apm_sections rt filtered_metrics) (\<lambda>sections.
           Inr (found_line n service # sections))))"

definition apm_report :: "string list \<Rightarrow> pyval" where
  "apm_report result_lines =
     PStr (format_result ''Application Performance Report'' (join_with [CHR 0x0A] result_lines))"

definition application_performance_execute ::
  "runtime \<Rightarrow> (string \<Rightarrow> file_read) \<Rightarrow> DataLoader \<Rightarrow> string \<Rightarrow> string option \<Rightarrow> int
     \<Rightarrow> outcome" where
  "application_performance_execute rt disk dl service endpoint minutes =
     finish (wrap_validation ''Failed to view application performance: '')
       (if minutes < 0 then (Inl (TimeRangeError ''Minutes must be non-negative''), dl, [])
        else with_fixture disk dl ''performance/apm_data.yaml'' load_apm_data (\<lambda>data.
          bindE (m_get data ''apm_metrics'' (PList [])) (\<lambda>metrics.
          bindE (apm_result_lines rt service minutes metrics) (\<lambda>result_lines.
          Inr (apm_report result_lines)))))"

text \<open>
  \<open>ApplicationPerformanceInquiryTool.execute\<close> in
  \<open>src/tools/application_performance_inquiry.py\<close>. A first loop copies every record
  of every area, with the area's fields in front (\<open>{..., **metric}\<close>); a second loop
  shapes each copy into eight samples.
\<close>

definition py_items :: "pyval \<Rightarrow> mexn + pydict" where
  "py_items v =
     (case v of
        PDict d \<Rightarrow> Inr d
      | _ \<Rightarrow> Inl (PyError ''AttributeError''
                   (CHR 0x27 # type_name v @ [CHR 0x27] @ '' object has no attribute ''
                    @ [CHR 0x27] @ ''items'' @ [CHR 0x27])))"

definition dict_unpack :: "pydict \<Rightarrow> pyval \<Rightarrow> mexn + pydict" where
  "dict_unpack base v =
     (case v of
        PDict d \<Rightarrow> Inr (foldl (\<lambda>acc kv. dict_set (fst kv) (snd kv) acc) base d)
      | _ \<Rightarrow> Inl (PyError ''TypeError''
                   (CHR 0x27 # type_name v @ [CHR 0x27] @ '' object is not a mapping'')))"

definition area_metrics :: "string \<times> pyval \<Rightarrow> mexn + pydict list" where
  "area_metrics area =
     (case area of (area_name, area_data) \<Rightarrow>
        bindE (as_dict area_data) (\<lambda>a.
        bindE (py_iter (dict_get_default a ''metrics'' (PList []))) (\<lambda>ms.
        mapM (dict_unpack
                [(''area'', PStr area_name),
                 (''description'', dict_get_default a ''description'' (PStr [])),
                 (''criticality'', dict_get_default a ''criticality'' (PStr ''NORMAL'')),
                 (''sla_response_time_ms'', dict_get_default a ''sla_response_time_ms'' (PInt 1000))])
             ms)))"

definition inquiry_samples :: "runtime \<Rightarrow> pydict \<Rightarrow> mexn + pyval list" where
  "inquiry_samples rt metric =
     (let area_name = dict_get_default metric ''area'' (PStr ''unknown'');
          criticality = dict_get_default metric ''criticality'' (PStr ''NORMAL'');
          sla = dict_get_default metric ''sla_response_time_ms'' (PInt 1000);
          labels = [(''area'', area_name), (''criticality'', criticality)];
          p95_time = dict_get_default metric ''response_time_p95_ms'' (PInt 0)
      in bindE (py_le rt p95_time sla) (\<lambda>sla_compliant. Inr
           [prom_sample rt ''appl_area_request_rate'' labels
              (str_of rt (dict_get_default metric ''request_rate'' (PInt 0))),
            prom_sample rt ''appl_area_response_time_ms'' (labels @ [(''quantile'', PStr ''0.50'')])
              (str_of rt (dict_get_default metric ''response_time_p50_ms'' (PInt 0))),
            prom_sample rt ''appl_area_response_time_ms'' (labels @ [(''quantile'', PStr ''0.95'')])
              (str_of rt (dict_get_default metric ''response_time_p95_ms'' (PInt 0))),
            prom_sample rt ''appl_area_response_time_ms'' (labels @ [(''quantile'', PStr ''0.99'')])
              (str_of rt (dict_get_default metric ''response_time_p99_ms'' (PInt 0))),
            prom_sample rt ''appl_area_error_count'' labels
              (str_of rt (dict_get_default metric ''error_count'' (PInt 0))),
            prom_sample rt ''appl_area_success_count'' labels
              (str_of rt (dict_get_default metric ''success_count'' (PInt 0))),
            prom_sample rt ''appl_area_throughput_rps'' labels
              (str_of rt (dict_get_default metric ''throughput_rps'' (PInt 0))),
            prom_sample rt ''appl_area_sla_compliant'' (labels @ [(''sla_ms'', PStr (str_of rt sla))])
              (if sla_compliant then ''1'' else ''0'')]))"

definition application_performance_inquiry_execute ::
  "runtime \<Rightarrow> (string \<Rightarrow> file_read) \<Rightarrow> DataLoader \<Rightarrow> string \<Rightarrow> int \<Rightarrow> outcome" where
  "application_performance_inquiry_execute rt disk dl area time_range_minutes =
     finish (reraise_validation ''Failed to query application performance: '')
       (if time_range_minutes < 0
        then (Inl (TimeRangeError ''Time range must be non-negative''), dl, [])
        else with_fixture disk dl ''performance/appl_area_metrics.yaml'' load_appl_area_metrics
          (\<lambda>data.
          bindE (m_get data ''application_areas'' (PDict [])) (\<lambda>application_areas.
          bindE (py_items application_areas) (\<lambda>areas.
          bindE (mapM area_metrics areas) (\<lambda>per_area.
          bindE (mapM (inquiry_samples rt) (concat per_area)) (\<lambda>samples.
          json_dumps (prom_vector (concat samples))))))))"

text \<open>
  \<open>CheckAPMTool\<close> in \<open>src/tools/check_apm.py\<close>: \<open>_build_traces_response\<close>,
  \<open>_build_metrics_response\<close> and \<open>execute\<close>.
\<close>

fun jaeger_spans :: "runtime \<Rightarrow> pyval \<Rightarrow> pyval list \<Rightarrow> pyval list \<Rightarrow> pydict \<Rightarrow> nat
    \<Rightarrow> mexn + (pyval list \<times> pydict)" where
  "jaeger_spans rt trace_id [] spans processes process_counter = Inr (spans, processes)"
| "jaeger_spans rt trace_id (span_v # rest) spans processes process_counter =
     bindE (as_dict span_v) (\<lambda>s.
       let service_name = dict_get_default s ''service_name'' (PStr ''unknown'');
           known = list_ex (\<lambda>p. case snd p of
                                  PDict d \<Rightarrow> py_eq rt (dict_get d ''serviceName'') service_name
                                | _ \<Rightarrow> False) processes
       in bindE (if known then Inr (processes, process_counter)
                 else bindE (process_hostname rt service_name trace_id) (\<lambda>hostname.
                   Inr (dict_set (''p'' @ str_nat process_counter)
                          (PDict [(''serviceName'', service_name),
                                  (''tags'', PDict
                                     [(''hostname'', PStr hostname),
                                      (''ip'', PStr (''10.0.1.'' @ str_nat (process_counter + 10)))])])
                          processes,
                        process_counter + 1))) (\<lambda>pc.
          bindE (if truthy (dict_get_default s ''start_time'' (PStr []))
                 then span_start_us rt (dict_get_default s ''start_time'' (PStr []))
                 else Inr (PInt 0)) (\<lambda>start_time_us.
          bindE (py_times rt (dict_get_default s ''duration_ms'' (PInt 0)) (PInt 1000)) (\<lambda>ms.
          bindE (int_of rt ms) (\<lambda>duration_us.
          jaeger_spans rt trace_id rest
            (spans @ [PDict
               ([(''traceID'', trace_id),
                 (''spanID'', dict_get_default s ''span_id'' (PStr [])),
                 (''operationName'', dict_get_default s ''operation_name'' (PStr [])),
                 (''startTime'', start_time_us),
                 (''duration'', duration_us),
                 (''tags'', dict_get_default s ''tags'' (PDict [])),
                 (''logs'', dict_get_default s ''logs'' (PList []))]
                @ (if truthy (dict_get s ''parent_span_id'')
                   then [(''parentSpanID'', dict_get s ''parent_span_id'')] else []))])
            (fst pc) (snd pc))))))"

definition jaeger_trace :: "runtime \<Rightarrow> pyval \<Rightarrow> mexn + pyval" where
  "jaeger_trace rt trace =
     bindE (as_dict trace) (\<lambda>t.
       let trace_id = dict_get_default t ''trace_id'' (PStr [])
       in bindE (py_iter (dict_get_default t ''spans'' (PList []))) (\<lambda>trace_spans.
          bindE (jaeger_spans rt trace_id trace_spans [] [] 1) (\<lambda>sp.
          Inr (PDict [(''traceID'', trace_id), (''spans'', PList (fst sp)),
                      (''processes'', PDict (snd sp))]))))"

definition build_traces_response :: "runtime \<Rightarrow> pyval \<Rightarrow> mexn + pyval" where
  "build_traces_response rt traces =
     bindE (py_iter traces) (\<lambda>ts.
     bindE (mapM (jaeger_trace rt) ts) (\<lambda>filtered_traces.
     Inr (PDict [(''data'', PList filtered_traces)])))"

definition apm_metric_samples :: "runtime \<Rightarrow> string \<Rightarrow> pyval \<Rightarrow> mexn + pyval list" where
  "apm_metric_samples rt metric_type metric =
     bindE (as_dict metric) (\<lambda>m.
     bindE (as_dict (dict_get_default m ''metrics'' (PDict []))) (\<lambda>metrics_data.
       let labels = [(''service'', dict_get_default m ''service'' (PStr ''unknown'')),
                     (''operation'', dict_get_default m ''operation'' (PStr ''unknown''))];
           error_rate = dict_get_default metrics_data ''error_rate_percent'' (PInt 0);
           errors =
             (if metric_type \<in> set [''errors'', ''all'']
              then [prom_sample rt ''apm_error_rate_percent'' labels (str_of rt error_rate),
                    prom_sample rt ''apm_error_count'' labels
                      (str_of rt (dict_get_default metrics_data ''error_count'' (PInt 0))),
                    prom_sample rt ''apm_success_count'' labels
                      (str_of rt (dict_get_default metrics_data ''success_count'' (PInt 0)))]
              else [])
       in if metric_type \<in> set [''latency'', ''all'']
          then bindE (py_truediv rt (dict_get_default metrics_data ''trace_duration_p50_ms'' (PInt 0))
                        (PInt 1000)) (\<lambda>p50.
               bindE (py_truediv rt (dict_get_default metrics_data ''trace_duration_p95_ms'' (PInt 0))
                        (PInt 1000)) (\<lambda>p95.
               bindE (py_truediv rt (dict_get_default metrics_data ''trace_duration_p99_ms'' (PInt 0))
                        (PInt 1000)) (\<lambda>p99.
               Inr (errors @
                 [prom_sample rt ''apm_trace_duration_seconds''
                    (labels @ [(''quantile'', PStr ''0.50'')]) (str_of rt p50),
                  prom_sample rt ''apm_trace_duration_seconds''
                    (labels @ [(''quantile'', PStr ''0.95'')]) (str_of rt p95),
                  prom_sample rt ''apm_trace_duration_seconds''
                    (labels @ [(''quantile'', PStr ''0.99'')]) (str_of rt p99),
                  prom_sample rt ''apm_request_rate'' labels
                    (str_of rt (dict_get_default metrics_data ''request_rate_per_sec'' (PInt 0)))]))))
          else Inr errors))"

definition build_metrics_response :: "runtime \<Rightarrow> string \<Rightarrow> pyval \<Rightarrow> mexn + pyval" where
  "build_metrics_response rt metric_type metrics =
     bindE (py_iter metrics) (\<lambda>ms.
     bindE (mapM (apm_metric_samples rt metric_type) ms) (\<lambda>samples.
     Inr (prom_vector (concat samples))))"

definition valid_apm_types :: "string list" where
  "valid_apm_types = [''traces'', ''errors'', ''latency'', ''all'']"

text \<open>
  The three ways through \<open>execute\<close> once the input is valid: only traces, only
  metrics, or (\<open>all\<close>) traces and then metrics, the second load starting from the
  loader the first one left.
\<close>

definition check_apm_execute ::
  "runtime \<Rightarrow> (string \<Rightarrow> file_read) \<Rightarrow> DataLoader \<Rightarrow> string \<Rightarrow> string \<Rightarrow> int \<Rightarrow> pyval
     \<Rightarrow> outcome" where
  "check_apm_execute rt disk dl service metric_type minutes error_threshold =
     finish (reraise_validation ''Failed to query APM data: '')
       (if minutes < 0 then (Inl (TimeRangeError ''Minutes must be non-negative''), dl, [])
        else if metric_type \<notin> set valid_apm_types
        then (Inl (FilterError (''Invalid metric_type. Must be one of: ''
                                @ str_list valid_apm_types)), dl, [])
        else (case window_start rt minutes of
                Inl e \<Rightarrow> (Inl e, dl, [])
              | Inr start_time \<Rightarrow>
                 (if metric_type = ''traces''
                  then with_fixture disk dl ''apm/traces.yaml'' load_apm_traces (\<lambda>traces_data.
                         bindE (m_get traces_data ''traces'' (PList [])) (\<lambda>traces.
                         bindE (build_traces_response rt traces) json_dumps))
                  else if metric_type = ''all''
                  then (case load_apm_traces dl (disk ''apm/traces.yaml'') of
                          (loaded, dl1) \<Rightarrow>
                            (case bindE loaded (\<lambda>traces_data.
                                    bindE (m_get traces_data ''traces'' (PList []))
                                          (build_traces_response rt)) of
                               Inl e \<Rightarrow> (Inl e, dl1, [''apm/traces.yaml''])
                             | Inr traces_response \<Rightarrow>
                                (case with_fixture disk dl1 ''apm/metrics.yaml'' load_apm_metrics
                                        (\<lambda>metrics_data.
                                          bindE (m_get metrics_data ''apm_metrics'' (PList []))
                                            (\<lambda>metrics.
                                          bindE (build_metrics_response rt metric_type metrics)
                                            (\<lambda>metrics_response.
                                          json_dumps (PDict [(''traces'', traces_response),
                                                             (''metrics'', metrics_response)])))) of
                                   (r, dl2, paths) \<Rightarrow> (r, dl2, ''apm/traces.yaml'' # paths))))
                  else with_fixture disk dl ''apm/metrics.yaml'' load_apm_metrics (\<lambda>metrics_data.
                         bindE (m_get metrics_data ''apm_metrics'' (PList [])) (\<lambda>metrics.
                         bindE (build_metrics_response rt metric_type metrics) json_dumps)))))"

text \<open>\<open>ApiHealthCheckTool.execute\<close> in \<open>src/tools/api_health_check.py\<close>.\<close>

definition endpoint_checks :: "pyval \<Rightarrow> mexn + pydict list" where
  "endpoint_checks endpoint =
     bindE (as_dict endpoint) (\<lambda>e.
     bindE (py_iter (dict_get_default e ''checks'' (PList []))) (\<lambda>checks.
     mapM (dict_unpack
             [(''endpoint_id'', dict_get_default e ''endpoint_id'' (PStr ''unknown'')),
              (''url'', dict_get_default e ''url'' (PStr [])),
              (''name'', dict_get_default e ''name'' (PStr [])),
              (''service'', dict_get_default e ''service'' (PStr ''unknown'')),
              (''environment'', dict_get_default e ''environment'' (PStr ''production'')),
              (''region'', dict_get_default e ''region'' (PStr ''unknown'')),
              (''method'', dict_get_default e ''method'' (PStr ''GET'')),
              (''expected_status_code'', dict_get_default e ''expected_status_code'' (PInt 200))])
          checks))"

definition status_labels :: "runtime \<Rightarrow> pyval \<Rightarrow> pyval" where
  "status_labels rt status =
     (if py_eq rt (PStr ''UP'') status then PInt 1
      else if py_eq rt (PStr ''DOWN'') status then PInt 0
      else if py_eq rt (PStr ''DEGRADED'') status then PFloat (Fin (1 / 2))
      else if py_eq rt (PStr ''RATE_LIMITED'') status then PFloat (round_to_double (3 / 10))
      else PInt 0)"

definition health_samples :: "runtime \<Rightarrow> pydict \<Rightarrow> mexn + pyval list" where
  "health_samples rt chk =
     (let service_name = dict_get_default chk ''service'' (PStr ''unknown'');
          endpoint_url = dict_get_default chk ''url'' (PStr []);
          region = dict_get_default chk ''region'' (PStr ''unknown'');
          environment = dict_get_default chk ''environment'' (PStr ''production'');
          status = dict_get_default chk ''status'' (PStr ''UNKNOWN'');
          status_code = dict_get_default chk ''status_code'' (PInt 0);
          response_time_ms = dict_get_default chk ''response_time_ms'' (PInt 0);
          expected_code = dict_get_default chk ''expected_status_code'' (PInt 200);
          labels = [(''service'', service_name), (''url'', endpoint_url)]
      in bindE (hash_of rt status) (\<lambda>h.
         bindE (py_gt rt response_time_ms (PInt 1000)) (\<lambda>slow_response. Inr
           [prom_sample rt ''api_health_up''
              (labels @ [(''region'', region), (''environment'', environment)])
              (if py_eq rt status (PStr ''UP'') then ''1'' else ''0''),
            prom_sample rt ''api_health_status_code'' (labels @ [(''region'', region)])
              (str_of rt status_code),
            prom_sample rt ''api_health_response_time_ms'' (labels @ [(''region'', region)])
              (str_of rt response_time_ms),
            prom_sample rt ''api_health_status_code_match''
              (labels @ [(''expected_code'', PStr (str_of rt expected_code))])
              (if py_eq rt status_code expected_code then ''1'' else ''0''),
            prom_sample rt ''api_health_status'' (labels @ [(''status'', status)])
              (str_of rt (status_labels rt status)),
            prom_sample rt ''api_health_slow_response'' (labels @ [(''threshold_ms'', PStr ''1000'')])
              (if slow_response then ''1'' else ''0'')])))"

definition api_health_check_execute ::
  "runtime \<Rightarrow> (string \<Rightarrow> file_read) \<Rightarrow> DataLoader \<Rightarrow> string \<Rightarrow> outcome" where
  "api_health_check_execute rt disk dl service_name =
     finish (reraise_validation ''Failed to check API health: '')
       (with_fixture disk dl ''health_checks/api_endpoints.yaml'' load_health_check_data (\<lambda>data.
          bindE (m_get data ''health_check_endpoints'' (PList [])) (\<lambda>endpoints.
          bindE (py_iter endpoints) (\<lambda>es.
          bindE (mapM endpoint_checks es) (\<lambda>filtered_checks.
          bindE (mapM (health_samples rt) (concat filtered_checks)) (\<lambda>samples.
          json_dumps (prom_vector (concat samples))))))))"

section \<open>The monitoring server: a runtime and fixtures for examples\<close>

text \<open>
  One runtime, for the examples: it renders integers and strings the way Python does
  and other values as their type name, compares integers and finite floats, adds and
  multiplies integers, divides integers exactly, refuses other operands with
  \<open>TypeError\<close>, and has a fixed clock and a fixed UUID.
\<close>

definition sample_str :: "pyval \<Rightarrow> string" where
  "sample_str v =
     (case v of
        PStr s \<Rightarrow> s
      | PInt i \<Rightarrow> str_int i
      | PBool b \<Rightarrow> (if b then ''True'' else ''False'')
      | PNone \<Rightarrow> ''None''
      | PDatetime s \<Rightarrow> s
      | _ \<Rightarrow> ''<'' @ type_name v @ ''>'')"

definition sample_int_op ::
  "(int \<Rightarrow> int \<Rightarrow> 'a) \<Rightarrow> pyval \<Rightarrow> pyval \<Rightarrow> mexn + 'a" where
  "sample_int_op f x y =
     (case (x, y) of
        (PInt a, PInt b) \<Rightarrow> Inr (f a b)
      | _ \<Rightarrow> Inl (PyError ''TypeError'' ''unsupported operand types''))"

definition sample_compare :: "(rat \<Rightarrow> rat \<Rightarrow> bool) \<Rightarrow> pyval \<Rightarrow> pyval \<Rightarrow> mexn + bool" where
  "sample_compare f x y =
     (case (x, y) of
        (PInt a, PInt b) \<Rightarrow> Inr (f (of_int a) (of_int b))
      | (PInt a, PFloat (Fin b)) \<Rightarrow> Inr (f (of_int a) b)
      | (PFloat (Fin a), PInt b) \<Rightarrow> Inr (f a (of_int b))
      | (PFloat (Fin a), PFloat (Fin b)) \<Rightarrow> Inr (f a b)
      | _ \<Rightarrow> Inl (PyError ''TypeError'' ''unsupported operand types''))"

definition sample_runtime :: runtime where
  "sample_runtime =
     \<lparr> str_of = sample_str,
       hash_of = (\<lambda>v. case v of
                        PList xs \<Rightarrow> Inl (PyError ''TypeError'' ''unhashable type: list'')
                      | PDict d \<Rightarrow> Inl (PyError ''TypeError'' ''unhashable type: dict'')
                      | _ \<Rightarrow> Inr 7),
       py_eq = (\<lambda>x y. x = y),
       py_gt = sample_compare (\<lambda>a b. b < a),
       py_le = sample_compare (\<lambda>a b. a \<le> b),
       py_add = sample_int_op (\<lambda>a b. PInt (a + b)),
       py_times = sample_int_op (\<lambda>a b. PInt (a * b)),
       py_truediv = sample_int_op (\<lambda>a b. PFloat (Fin (of_int a / of_int b))),
       int_of = (\<lambda>v. Inr v),
       time_time = 1700000000,
       now_iso = (\<lambda>i. ''2023-11-14T22:13:20+00:00''),
       today = ''2023.11.14'',
       uuid4 = (\<lambda>i j. replicate 32 (CHR ''a'')),
       span_start_us = (\<lambda>v. Inr (PInt 0)),
       process_hostname = (\<lambda>service_name trace_id. Inr ''pod''),
       window_start = (\<lambda>minutes.
          if minutes < 1000000000 then Inr ''start''
          else Inl (PyError ''OverflowError'' ''date value out of range'')) \<rparr>"

text \<open>A data directory without files, and one with a small fixture for every tool.\<close>

definition empty_disk :: "string \<Rightarrow> file_read" where
  "empty_disk path = FileMissing"

definition sample_interface_logs :: pyval where
  "sample_interface_logs =
     PDict [(''interface_logs'',
             PList [PDict [(''id'', PStr ''IF-1''), (''status'', PStr ''SUCCESS'')],
                    PDict [(''id'', PStr ''IF-2'')]])]"

definition sample_batch_logs :: pyval where
  "sample_batch_logs =
     PDict [(''batch_jobs'', PList [PDict [(''job_id'', PStr ''J1''), (''status'', PStr ''FAILED'')]])]"

definition sample_application_logs :: pyval where
  "sample_application_logs =
     PDict [(''application_logs'',
             PList [PDict [(''level'', PStr ''ERROR''), (''message'', PStr ''boom'')],
                    PDict [(''level'', PStr ''INFO'')]])]"

definition sample_server_metrics :: pyval where
  "sample_server_metrics =
     PDict [(''server_metrics'',
             PList [PDict [(''node'', PStr ''n1''), (''cpu_usage_percent'', PInt 40)]])]"

definition sample_apm_data :: pyval where
  "sample_apm_data =
     PDict [(''apm_metrics'',
             PList [PDict [(''service'', PStr ''pay''), (''avg_latency_ms'', PInt 700)],
                    PDict [(''service'', PStr ''cart'')],
                    PDict [(''service'', PStr ''pay'')]])]"

definition sample_appl_areas :: pyval where
  "sample_appl_areas =
     PDict [(''application_areas'',
             PDict [(''payment'',
                     PDict [(''criticality'', PStr ''HIGH''),
                            (''metrics'', PList [PDict [(''request_rate'', PInt 5)], PDict []])])])]"

definition sample_traces :: pyval where
  "sample_traces =
     PDict [(''traces'',
             PList [PDict [(''trace_id'', PStr ''t1''),
                           (''spans'', PList [PDict [(''service_name'', PStr ''pay''),
                                                     (''duration_ms'', PInt 3)]])]])]"

definition sample_apm_metrics :: pyval where
  "sample_apm_metrics =
     PDict [(''apm_metrics'',
             PList [PDict [(''service'', PStr ''pay''),
                           (''metrics'', PDict [(''error_count'', PInt 2)])]])]"

definition sample_health_checks :: pyval where
  "sample_health_checks =
     PDict [(''health_check_endpoints'',
             PList [PDict [(''service'', PStr ''pay''),
                           (''checks'', PList [PDict [(''status'', PStr ''UP''),
                                                      (''status_code'', PInt 200)],
                                               PDict [(''status'', PStr ''DOWN'')]])]])]"

definition sample_disk :: "string \<Rightarrow> file_read" where
  "sample_disk path =
     (if path = ''logs/interface_logs.yaml'' then Parsed sample_interface_logs
      else if path = ''logs/batch_logs.yaml'' then Parsed sample_batch_logs
      else if path = ''logs/application_logs.yaml'' then Parsed sample_application_logs
      else if path = ''performance/server_metrics.yaml'' then Parsed sample_server_metrics
      else if path = ''performance/apm_data.yaml'' then Parsed sample_apm_data
      else if path = ''performance/appl_area_metrics.yaml'' then Parsed sample_appl_areas
      else if path = ''apm/traces.yaml'' then Parsed sample_traces
      else if path = ''apm/metrics.yaml'' then Parsed sample_apm_metrics
      else if path = ''health_checks/api_endpoints.yaml'' then Parsed sample_health_checks
      else FileMissing)"

section \<open>Properties of the HTTP client\<close>

lemma get_body_never_httpx:
  "get_body c url tr n = (Inl e, n') \<Longrightarrow> \<not> retry_if_exception_type_httpx e"
  by (cases "get_try (tr n)"; cases "projl (get_try (tr n))")
     (auto simp: get_body_def retry_if_exception_type_httpx_def mk_APIError_def
           split: if_splits)

lemma retry_call_rejected:
  assumes "\<And>n e n'. f n = (Inl e, n') \<Longrightarrow> \<not> p e"
  shows "retry_call m p f a n ws = (fst (f n), snd (f n), ws)"
  using assms by (cases "f n"; cases "fst (f n)") (auto split: prod.splits sum.splits)

lemma get_is_one_attempt:
  "get c url tr n = (fst (get_body c url tr n), snd (get_body c url tr n), [])"
  unfolding get_def by (rule retry_call_rejected) (rule get_body_never_httpx)

text \<open>
  C1. The claim: two transient failures followed by a success make \<open>get\<close> return the
  success after exactly 3 transport invocations, and 3 consecutive transient failures
  make it raise after exactly \<open>max_retries\<close> invocations. The code: the body of \<open>get\<close>
  catches every \<open>httpx\<close> exception and raises \<open>MCPTimeoutError\<close> or \<open>APIError\<close>
  instead, which the decorator's predicate does not retry; so the first timeout is
  final. On both transports \<open>get\<close> raises \<open>MCPTimeoutError\<close> after one invocation
  and without any sleep.
\<close>

theorem C1_get_gives_up_after_first_timeout:
  "get (aenter (HTTPClient_init default_settings None None None)) url two_timeouts_then_ok 0
     = (Inl (MCPTimeoutError (''Request to '' @ url @ '' timed out'') []
               (Some (HttpxTimeoutException ''timed out''))), 1, [])
   \<and> get (aenter (HTTPClient_init default_settings None None None)) url always_timeout 0
     = (Inl (MCPTimeoutError (''Request to '' @ url @ '' timed out'') []
               (Some (HttpxTimeoutException ''timed out''))), 1, [])"
  by (simp add: get_is_one_attempt get_body_def aenter_def HTTPClient_init_def get_try_def
        two_timeouts_then_ok_def always_timeout_def)

text \<open>
  C3. A response whose status is not 2xx is not retried: \<open>get\<close> raises \<open>APIError\<close>
  after exactly one transport invocation and no sleep. The error's message names the
  status code, its cause is the \<open>HTTPStatusError\<close>, and its details hold the status code
  under \<open>status_code\<close> and the body under \<open>response_text\<close> (a key is left out when
  its value is falsy: status 0, empty body).
\<close>

theorem C3_non_2xx_raises_immediately:
  assumes "has_client c" and "tr n = Inr r"
    and "\<not> (200 \<le> status_code r \<and> status_code r \<le> 299)"
  shows "\<exists>d. get c url tr n =
           (Inl (APIError (''HTTP '' @ str_int (status_code r) @ '' error for '' @ url) d
              (Some (HttpxHTTPStatusError ''status error'' (status_code r) (body_text r)))),
            Suc n, [])
         \<and> map_of d ''status_code''
             = (if status_code r = 0 then None else Some (PInt (status_code r)))
         \<and> map_of d ''response_text''
             = (if body_text r = [] then None else Some (PStr (body_text r)))"
proof -
  have "raise_for_status ''status error'' r
          = Inl (HttpxHTTPStatusError ''status error'' (status_code r) (body_text r))"
    using assms(3) by (auto simp: raise_for_status_def)
  then have "get_body c url tr n =
      (Inl (get_except url (HttpxHTTPStatusError ''status error'' (status_code r) (body_text r))),
       Suc n)"
    using assms(1,2) by (simp add: get_body_def get_try_def)
  then show ?thesis
    by (simp add: get_is_one_attempt mk_APIError_def api_error_details_def)
qed

theorem C3_witness_404:
  "has_client (aenter (HTTPClient_init default_settings None None None))
   \<and> \<not> (200 \<le> status_code not_found_response \<and> status_code not_found_response \<le> 299)
   \<and> (\<exists>d. get (aenter (HTTPClient_init default_settings None None None))
              ''https://wttr.in/x'' (\<lambda>n. Inr not_found_response) 0
            = (Inl (APIError ''HTTP 404 error for https://wttr.in/x'' d
                 (Some (HttpxHTTPStatusError ''status error'' 404 ''Not Found''))), 1, [])
          \<and> map_of d ''status_code'' = Some (PInt 404)
          \<and> map_of d ''response_text'' = Some (PStr ''Not Found''))"
proof -
  let ?c = "aenter (HTTPClient_init default_settings None None None)"
  have c: "has_client ?c" by (simp add: aenter_def)
  have s: "\<not> (200 \<le> status_code not_found_response \<and> status_code not_found_response \<le> 299)"
    by (simp add: not_found_response_def)
  have n: "str_int 404 = ''404''" by code_simp
  have t: "(\<lambda>n::nat. (Inr not_found_response :: exn + response)) 0 = Inr not_found_response"
    by simp
  have "\<exists>d. get ?c ''https://wttr.in/x'' (\<lambda>n. Inr not_found_response) 0
            = (Inl (APIError ''HTTP 404 error for https://wttr.in/x'' d
                 (Some (HttpxHTTPStatusError ''status error'' 404 ''Not Found''))), 1, [])
          \<and> map_of d ''status_code'' = Some (PInt 404)
          \<and> map_of d ''response_text'' = Some (PStr ''Not Found'')"
    using C3_non_2xx_raises_immediately [OF c t s, of "''https://wttr.in/x''"]
    by (simp add: not_found_response_def n)
  with c s show ?thesis by blast
qed

section \<open>Properties of the data loader\<close>

lemma map_of_dict_set: "map_of (dict_set k v d) = (map_of d)(k \<mapsto> v)"
  by (induction d) (auto simp: fun_eq_iff)

lemma load_yaml_cache:
  "map_of (cache (snd (load_yaml dl p uc disk))) k =
     (case (if uc then map_of (cache dl) p else None) of
        Some c \<Rightarrow> map_of (cache dl) k
      | None \<Rightarrow> (case disk of
                   Parsed d \<Rightarrow> if k = p then Some (if truthy d then d else PDict [])
                               else map_of (cache dl) k
                 | _ \<Rightarrow> map_of (cache dl) k))"
  by (auto simp: load_yaml_def map_of_dict_set Let_def split: option.splits file_read.splits)

lemma step_keeps_keys:
  "op \<noteq> ClearCache \<Longrightarrow> map_of (cache dl) k \<noteq> None
     \<Longrightarrow> map_of (cache (loader_step dl op)) k \<noteq> None"
  by (cases op) (auto simp: load_yaml_cache split: option.splits file_read.splits)

lemma step_keeps_value:
  "op \<noteq> ClearCache \<Longrightarrow> \<not> bypasses_cache k op \<Longrightarrow> map_of (cache dl) k = Some v
     \<Longrightarrow> map_of (cache (loader_step dl op)) k = Some v"
  by (cases op) (auto simp: load_yaml_cache split: option.splits file_read.splits)

lemma run_keeps_keys:
  "ClearCache \<notin> set ops \<Longrightarrow> map_of (cache dl) k \<noteq> None
     \<Longrightarrow> map_of (cache (loader_run dl ops)) k \<noteq> None"
  unfolding loader_run_def
proof (induction ops arbitrary: dl)
  case Nil
  then show ?case by simp
next
  case (Cons op ops)
  then have "map_of (cache (loader_step dl op)) k \<noteq> None"
    using step_keeps_keys[of op dl k] by auto
  with Cons show ?case by simp
qed

lemma run_keeps_value:
  "ClearCache \<notin> set ops \<Longrightarrow> \<forall>op \<in> set ops. \<not> bypasses_cache k op
     \<Longrightarrow> map_of (cache dl) k = Some v
     \<Longrightarrow> map_of (cache (loader_run dl ops)) k = Some v"
  unfolding loader_run_def
proof (induction ops arbitrary: dl)
  case Nil
  then show ?case by simp
next
  case (Cons op ops)
  then have "map_of (cache (loader_step dl op)) k = Some v"
    using step_keeps_value[of op k dl v] by auto
  with Cons show ?case by simp
qed







text \<open>
  C8 (as amended). The cache only grows until it is cleared, and a cached value stays
  as long as its path is not re-read with \<open>use_cache=False\<close>: over any run of
  operations without \<open>clear_cache\<close>, every cached path stays cached; if moreover no
  operation of the run loads path \<open>k\<close> with \<open>use_cache=False\<close>, the value cached for
  \<open>k\<close> stays the same. A load of \<open>k\<close> with \<open>use_cache=False\<close> that parses overwrites
  the entry with what the file holds now. \<open>clear_cache\<close> empties the cache.
\<close>

theorem C8_cache_grows_until_cleared:
  "(ClearCache \<notin> set ops \<longrightarrow>
      dom (map_of (cache dl)) \<subseteq> dom (map_of (cache (loader_run dl ops))))
   \<and> (ClearCache \<notin> set ops \<longrightarrow> (\<forall>op \<in> set ops. \<not> bypasses_cache k op) \<longrightarrow>
        map_of (cache dl) k = Some v \<longrightarrow> map_of (cache (loader_run dl ops)) k = Some v)
   \<and> map_of (cache (loader_step dl (LoadYaml k False (Parsed d)))) k
        = Some (if truthy d then d else PDict [])
   \<and> cache (loader_step dl ClearCache) = []"
proof (intro conjI impI)
  assume "ClearCache \<notin> set ops"
  then show "dom (map_of (cache dl)) \<subseteq> dom (map_of (cache (loader_run dl ops)))"
    using run_keeps_keys[of ops dl] by (auto simp: dom_def)
next
  assume "ClearCache \<notin> set ops" "\<forall>op \<in> set ops. \<not> bypasses_cache k op"
    "map_of (cache dl) k = Some v"
  then show "map_of (cache (loader_run dl ops)) k = Some v" by (rule run_keeps_value)
next
  show "map_of (cache (loader_step dl (LoadYaml k False (Parsed d)))) k
        = Some (if truthy d then d else PDict [])"
    by (simp add: load_yaml_cache)
next
  show "cache (loader_step dl ClearCache) = []" by (simp add: clear_cache_def)
qed

theorem C8_witness:
  "ClearCache \<notin> set demo_ops
   \<and> list_all (\<lambda>op. \<not> bypasses_cache ''logs/batch_logs.yaml'' op) demo_ops
   \<and> map_of (cache one_entry_loader) ''logs/batch_logs.yaml'' = Some (PDict [(''batch_jobs'', PList [])])
   \<and> ''logs/batch_logs.yaml'' \<in> dom (map_of (cache (loader_run one_entry_loader demo_ops)))
   \<and> map_of (cache (loader_run one_entry_loader demo_ops)) ''logs/batch_logs.yaml''
        = Some (PDict [(''batch_jobs'', PList [])])"
proof -
  have a: "ClearCache \<notin> set demo_ops" by (simp add: demo_ops_def)
  have b: "\<forall>op \<in> set demo_ops. \<not> bypasses_cache ''logs/batch_logs.yaml'' op"
    by (simp add: demo_ops_def)
  have c: "map_of (cache one_entry_loader) ''logs/batch_logs.yaml''
             = Some (PDict [(''batch_jobs'', PList [])])"
    by (simp add: one_entry_loader_def loader_run_def load_yaml_def DataLoader_init_def Let_def)
  from C8_cache_grows_until_cleared [of demo_ops one_entry_loader "''logs/batch_logs.yaml''"
      "PDict [(''batch_jobs'', PList [])]"] a b c
  show ?thesis by (auto simp: list_all_iff)
qed

text \<open>
  The claim as stated fails: after \<open>logs/batch_logs.yaml\<close> has been cached with no
  jobs, a load of the same path with \<open>use_cache=False\<close>, when the file now holds one
  job, replaces the cached value by a different one.
\<close>

theorem C8_counterexample:
  "map_of (cache one_entry_loader) ''logs/batch_logs.yaml'' = Some (PDict [(''batch_jobs'', PList [])])
   \<and> map_of (cache (loader_step one_entry_loader
        (LoadYaml ''logs/batch_logs.yaml'' False (Parsed (PDict [(''batch_jobs'', PList [PInt 1])])))))
        ''logs/batch_logs.yaml'' = Some (PDict [(''batch_jobs'', PList [PInt 1])])
   \<and> PDict [(''batch_jobs'', PList [PInt 1])] \<noteq> PDict [(''batch_jobs'', PList [])]"
  by (simp add: one_entry_loader_def loader_run_def load_yaml_def DataLoader_init_def Let_def)




section \<open>Properties of the IP validator\<close>







lemma rep0: "rmatch (Repeat r 0 0) s k = k s"
  by simp




lemma digit_not_special:
  "py_isdigit c \<Longrightarrow> c \<noteq> CHR ''.'' \<and> c \<noteq> CHR '':'' \<and> c \<noteq> CHR ''-'' \<and> c \<noteq> CHR ''+''
     \<and> c \<noteq> CHR ''_'' \<and> c \<noteq> CHR 0x0A \<and> \<not> py_isspace c"
  by (auto simp: py_isdigit_def py_isspace_def)





lemma strip_digits:
  assumes "list_all py_isdigit g" "g \<noteq> []" "at_dollar e"
  shows "py_strip (g @ e) = g"
proof -
  from assms obtain c g' where g: "g = c # g'" by (cases g) auto
  with assms have c: "\<not> py_isspace c" by (auto dest: digit_not_special)
  from assms obtain d g'' where r: "rev g = d # g''" by (cases "rev g") auto
  then have "d \<in> set g" by (metis list.set_intros(1) set_rev)
  with assms have d: "\<not> py_isspace d" by (auto simp: list_all_iff dest: digit_not_special)
  have e: "dropWhile py_isspace (rev e @ d # g'') = d # g''"
    using assms(3) d by (auto simp: at_dollar_def py_isspace_def)
  show ?thesis
    using c e by (simp add: py_strip_def g r[unfolded g, simplified] ) (metis g r rev_rev_ident rev.simps(2))
qed


lemma no_double_underscore_digits:
  "list_all py_isdigit g \<Longrightarrow> no_double_underscore g"
  by (induction g rule: no_double_underscore.induct) (auto dest: digit_not_special)

lemma remove_underscore_digits: "list_all py_isdigit g \<Longrightarrow> py_remove CHR ''_'' g = g"
  by (induction g) (auto simp: py_remove_def dest: digit_not_special)

lemma int_literal_ok_digits: "list_all py_isdigit g \<Longrightarrow> g \<noteq> [] \<Longrightarrow> int_literal_ok g"
  unfolding int_literal_ok_def
  by (auto simp: no_double_underscore_digits list_all_iff)

lemma py_int_digits:
  assumes "list_all py_isdigit g" "g \<noteq> []" "at_dollar e"
  shows "py_int (g @ e) = Inr (int (digits_value g))"
proof -
  from assms(1,2) have h: "hd g \<noteq> CHR ''-''" "hd g \<noteq> CHR ''+''"
    by (cases g; auto dest: digit_not_special)+
  show ?thesis
    using assms h
    by (simp add: py_int_def strip_digits Let_def int_literal_ok_digits remove_underscore_digits)
qed

lemma py_int_digits0: "list_all py_isdigit g \<Longrightarrow> g \<noteq> [] \<Longrightarrow> py_int g = Inr (int (digits_value g))"
  using py_int_digits[of g "[]"] by (simp add: at_dollar_def)

lemma all_octets_digits:
  "\<forall>g \<in> set gs. list_all py_isdigit g \<and> g \<noteq> [] \<Longrightarrow>
     all_octets gs = Inr (\<forall>g \<in> set gs. digits_value g \<le> 255)"
  by (induction gs) (auto simp: py_int_digits0)
















section \<open>Properties of the exchange rate tool\<close>

lemma get_ok:
  "tr n = Inr r \<Longrightarrow> 200 \<le> status_code r \<Longrightarrow> status_code r \<le> 299 \<Longrightarrow> json_body r = Inr v
     \<Longrightarrow> get (aenter c) url tr n = (Inr v, Suc n, [])"
  by (simp add: get_is_one_attempt get_body_def aenter_def get_try_def raise_for_status_def
        response_json_def)








section \<open>Properties of the weather tool\<close>

lemma bindE_Inr: "bindE m f = Inr y \<longleftrightarrow> (\<exists>x. m = Inr x \<and> f x = Inr y)"
  by (cases m) (auto simp: bindE_def)

lemma collect_Cons_Inr:
  "collect ((k, m) # rest) = Inr kvs \<longleftrightarrow>
     (\<exists>v kvs'. m = Inr v \<and> collect rest = Inr kvs' \<and> kvs = (k, v) # kvs')"
  by (cases m; cases "collect rest") auto

lemma collect_Nil_Inr: "collect [] = Inr kvs \<longleftrightarrow> kvs = []"
  by auto

lemma py_get_Inr:
  "py_get v k d = Inr y \<longleftrightarrow> (\<exists>kv. v = PDict kv \<and> y = dict_get_default kv k d)"
  by (cases v) (auto simp: py_get_def)

lemma first_value_absent:
  "map_of d key = None \<Longrightarrow> first_value (PDict d) key dflt = Inr dflt"
  by (simp add: first_value_def py_get_def bindE_def dict_get_default_def py_index0_def)

lemma weather_result_shape:
  assumes "weather_result location data = Inr res"
  shows "\<exists>d cur li n c r w.
      data = PDict d
      \<and> py_index0 (dict_get_default d ''current_condition'' (PList [PDict []])) = Inr (PDict cur)
      \<and> py_index0 (dict_get_default d ''nearest_area'' (PList [PDict []])) = Inr (PDict li)
      \<and> first_value (PDict li) ''areaName'' (PStr location) = Inr n
      \<and> first_value (PDict li) ''country'' (PStr []) = Inr c
      \<and> first_value (PDict li) ''region'' (PStr []) = Inr r
      \<and> first_value (PDict cur) ''weatherDesc'' (PStr []) = Inr w
      \<and> res = PDict
          [(''location'', PDict [(''name'', n), (''country'', c), (''region'', r)]),
           (''current'', PDict
              [(''temperature_c'', dict_get_default cur ''temp_C'' (PStr [])),
               (''temperature_f'', dict_get_default cur ''temp_F'' (PStr [])),
               (''feels_like_c'', dict_get_default cur ''FeelsLikeC'' (PStr [])),
               (''feels_like_f'', dict_get_default cur ''FeelsLikeF'' (PStr [])),
               (''condition'', w),
               (''humidity'', dict_get_default cur ''humidity'' (PStr [])),
               (''precipitation_mm'', dict_get_default cur ''precipMM'' (PStr [])),
               (''pressure_mb'', dict_get_default cur ''pressure'' (PStr [])),
               (''wind_speed_kmph'', dict_get_default cur ''windspeedKmph'' (PStr [])),
               (''wind_direction'', dict_get_default cur ''winddir16Point'' (PStr [])),
               (''cloud_cover'', dict_get_default cur ''cloudcover'' (PStr [])),
               (''uv_index'', dict_get_default cur ''uvIndex'' (PStr [])),
               (''visibility_km'', dict_get_default cur ''visibility'' (PStr []))]),
           (''observation_time'', dict_get_default cur ''observation_time'' (PStr []))]"
proof -
  from assms obtain d where d: "data = PDict d"
    unfolding weather_result_def bindE_Inr py_get_Inr by blast
  from assms obtain current where c1:
    "py_index0 (dict_get_default d ''current_condition'' (PList [PDict []])) = Inr current"
    unfolding weather_result_def d bindE_Inr py_get_Inr by auto
  from assms obtain location_info where l1:
    "py_index0 (dict_get_default d ''nearest_area'' (PList [PDict []])) = Inr location_info"
    unfolding weather_result_def d bindE_Inr py_get_Inr by auto
  from assms c1 l1 obtain cur where cur: "current = PDict cur"
    unfolding weather_result_def d bindE_Inr py_get_Inr collect_Cons_Inr collect_Nil_Inr
    by auto
  from assms c1 l1 obtain li where li: "location_info = PDict li"
    unfolding weather_result_def d bindE_Inr py_get_Inr collect_Cons_Inr collect_Nil_Inr
      first_value_def
    by auto
  from assms c1 l1 show ?thesis
    unfolding weather_result_def d bindE_Inr py_get_Inr collect_Cons_Inr collect_Nil_Inr cur li
    by auto
qed


lemma get_try_Inr:
  "get_try outcome = Inr v \<longleftrightarrow>
     (\<exists>r. outcome = Inr r \<and> 200 \<le> status_code r \<and> status_code r \<le> 299 \<and> json_body r = Inr v)"
  by (cases outcome)
     (auto simp: get_try_def raise_for_status_def response_json_def split: sum.splits if_splits)

lemma get_Inr:
  "fst (get c url tr n) = Inr v \<Longrightarrow> \<exists>r. tr n = Inr r \<and> json_body r = Inr v"
  by (auto simp: get_is_one_attempt get_body_def get_try_Inr split: if_splits sum.splits)

lemma weather_execute_cases:
  "(\<exists>e. fst (weather_execute cfg location format tr n)
         = Inl (ToolExecutionError
                  (''Failed to fetch weather for '' @ location @ '': '' @ str_exn e) [] (Some e)))
   \<or> (\<exists>data res. fst (get (aenter (HTTPClient_init cfg None None None))
                        (build_url ''https://wttr.in'' location) tr n) = Inr data
           \<and> weather_result location data = Inr res
           \<and> fst (weather_execute cfg location format tr n) = Inr res)"
proof -
  obtain fetched n' sleeps where g: "get (aenter (HTTPClient_init cfg None None None))
      (build_url ''https://wttr.in'' location) tr n = (fetched, n', sleeps)"
    by (cases "get (aenter (HTTPClient_init cfg None None None))
      (build_url ''https://wttr.in'' location) tr n") auto
  show ?thesis
  proof (cases "bindE fetched (weather_result location)")
    case (Inl e)
    then show ?thesis by (simp add: weather_execute_def g)
  next
    case (Inr res)
    then obtain data where "fetched = Inr data" "weather_result location data = Inr res"
      unfolding bindE_Inr by blast
    with Inr show ?thesis by (simp add: weather_execute_def g)
  qed
qed

text \<open>
  C7 (as amended). For every transport outcome, \<open>execute\<close> either raises exactly one
  \<open>ToolExecutionError\<close> (whose cause is the underlying exception), or the upstream body
  is a JSON object and the result has the complete shape: \<open>location\<close> with \<open>name\<close>,
  \<open>country\<close>, \<open>region\<close>; \<open>current\<close> with its thirteen entries; and
  \<open>observation_time\<close>. Every entry whose upstream key is absent is the empty string,
  except \<open>location.name\<close>, which is then the requested location.
\<close>

theorem C7_weather_complete_or_error:
  "(\<exists>m c. fst (weather_execute cfg location format tr n)
             = Inl (ToolExecutionError m [] (Some c)))
   \<or> (\<exists>r d cur li name country region cond.
        tr n = Inr r \<and> json_body r = Inr (PDict d)
        \<and> py_index0 (dict_get_default d ''current_condition'' (PList [PDict []]))
              = Inr (PDict cur)
        \<and> py_index0 (dict_get_default d ''nearest_area'' (PList [PDict []])) = Inr (PDict li)
        \<and> (map_of li ''areaName'' = None \<longrightarrow> name = PStr location)
        \<and> (map_of li ''country'' = None \<longrightarrow> country = PStr [])
        \<and> (map_of li ''region'' = None \<longrightarrow> region = PStr [])
        \<and> (map_of cur ''weatherDesc'' = None \<longrightarrow> cond = PStr [])
        \<and> fst (weather_execute cfg location format tr n) = Inr (PDict
          [(''location'', PDict [(''name'', name), (''country'', country), (''region'', region)]),
           (''current'', PDict
              [(''temperature_c'', dict_get_default cur ''temp_C'' (PStr [])),
               (''temperature_f'', dict_get_default cur ''temp_F'' (PStr [])),
               (''feels_like_c'', dict_get_default cur ''FeelsLikeC'' (PStr [])),
               (''feels_like_f'', dict_get_default cur ''FeelsLikeF'' (PStr [])),
               (''condition'', cond),
               (''humidity'', dict_get_default cur ''humidity'' (PStr [])),
               (''precipitation_mm'', dict_get_default cur ''precipMM'' (PStr [])),
               (''pressure_mb'', dict_get_default cur ''pressure'' (PStr [])),
               (''wind_speed_kmph'', dict_get_default cur ''windspeedKmph'' (PStr [])),
               (''wind_direction'', dict_get_default cur ''winddir16Point'' (PStr [])),
               (''cloud_cover'', dict_get_default cur ''cloudcover'' (PStr [])),
               (''uv_index'', dict_get_default cur ''uvIndex'' (PStr [])),
               (''visibility_km'', dict_get_default cur ''visibility'' (PStr []))]),
           (''observation_time'', dict_get_default cur ''observation_time'' (PStr []))]))"
proof -
  consider (err) e where "fst (weather_execute cfg location format tr n)
         = Inl (ToolExecutionError
                  (''Failed to fetch weather for '' @ location @ '': '' @ str_exn e) [] (Some e))"
    | (ok) data res where "fst (get (aenter (HTTPClient_init cfg None None None))
                        (build_url ''https://wttr.in'' location) tr n) = Inr data"
           "weather_result location data = Inr res"
           "fst (weather_execute cfg location format tr n) = Inr res"
    using weather_execute_cases[of cfg location format tr n] by blast
  then show ?thesis
  proof cases
    case err
    then show ?thesis by blast
  next
    case ok
    from weather_result_shape[OF ok(2)] obtain d cur li name country region cond where s:
      "data = PDict d"
      "py_index0 (dict_get_default d ''current_condition'' (PList [PDict []])) = Inr (PDict cur)"
      "py_index0 (dict_get_default d ''nearest_area'' (PList [PDict []])) = Inr (PDict li)"
      "first_value (PDict li) ''areaName'' (PStr location) = Inr name"
      "first_value (PDict li) ''country'' (PStr []) = Inr country"
      "first_value (PDict li) ''region'' (PStr []) = Inr region"
      "first_value (PDict cur) ''weatherDesc'' (PStr []) = Inr cond"
      and res: "res = PDict
          [(''location'', PDict [(''name'', name), (''country'', country), (''region'', region)]),
           (''current'', PDict
              [(''temperature_c'', dict_get_default cur ''temp_C'' (PStr [])),
               (''temperature_f'', dict_get_default cur ''temp_F'' (PStr [])),
               (''feels_like_c'', dict_get_default cur ''FeelsLikeC'' (PStr [])),
               (''feels_like_f'', dict_get_default cur ''FeelsLikeF'' (PStr [])),
               (''condition'', cond),
               (''humidity'', dict_get_default cur ''humidity'' (PStr [])),
               (''precipitation_mm'', dict_get_default cur ''precipMM'' (PStr [])),
               (''pressure_mb'', dict_get_default cur ''pressure'' (PStr [])),
               (''wind_speed_kmph'', dict_get_default cur ''windspeedKmph'' (PStr [])),
               (''wind_direction'', dict_get_default cur ''winddir16Point'' (PStr [])),
               (''cloud_cover'', dict_get_default cur ''cloudcover'' (PStr [])),
               (''uv_index'', dict_get_default cur ''uvIndex'' (PStr [])),
               (''visibility_km'', dict_get_default cur ''visibility'' (PStr []))]),
           (''observation_time'', dict_get_default cur ''observation_time'' (PStr []))]"
      by blast
    from get_Inr[OF ok(1)] s(1) obtain r where r: "tr n = Inr r" "json_body r = Inr (PDict d)"
      by blast
    have dn: "map_of li ''areaName'' = None \<longrightarrow> name = PStr location"
      using s(4) first_value_absent[of li "''areaName''" "PStr location"] by auto
    have dc: "map_of li ''country'' = None \<longrightarrow> country = PStr []"
      using s(5) first_value_absent[of li "''country''" "PStr []"] by auto
    have dr: "map_of li ''region'' = None \<longrightarrow> region = PStr []"
      using s(6) first_value_absent[of li "''region''" "PStr []"] by auto
    have dw: "map_of cur ''weatherDesc'' = None \<longrightarrow> cond = PStr []"
      using s(7) first_value_absent[of cur "''weatherDesc''" "PStr []"] by auto
    show ?thesis
      apply (rule disjI2)
      apply (rule exI[of _ r], rule exI[of _ d], rule exI[of _ cur], rule exI[of _ li])
      apply (rule exI[of _ name], rule exI[of _ country], rule exI[of _ region])
      apply (rule exI[of _ cond])
      using r s(2,3) dn dc dr dw ok(3) res by simp
  qed
qed


lemma london_direct:
  "fst (weather_execute default_settings ''London'' ''j1''
          (\<lambda>i. Inr (json_response (PDict london_body))) 0) = Inr (PDict
     [(''location'', PDict [(''name'', PStr ''London''), (''country'', PStr ''United Kingdom''),
                            (''region'', PStr [])]),
      (''current'', PDict
         [(''temperature_c'', PStr ''15''), (''temperature_f'', PStr []),
          (''feels_like_c'', PStr []), (''feels_like_f'', PStr []), (''condition'', PStr []),
          (''humidity'', PStr []), (''precipitation_mm'', PStr []), (''pressure_mb'', PStr []),
          (''wind_speed_kmph'', PStr []), (''wind_direction'', PStr []),
          (''cloud_cover'', PStr []), (''uv_index'', PStr []), (''visibility_km'', PStr [])]),
      (''observation_time'', PStr [])])"
  by (simp add: weather_execute_def get_ok json_response_def london_body_def weather_result_def
        bindE_def py_get_def py_index0_def dict_get_default_def first_value_def)

theorem C7_witness:
  "map_of [(''country'', PList [PDict [(''value'', PStr ''United Kingdom'')]])] ''areaName'' = None
   \<and> map_of [(''country'', PList [PDict [(''value'', PStr ''United Kingdom'')]])] ''region'' = None
   \<and> map_of [(''temp_C'', PStr ''15'')] ''weatherDesc'' = None
   \<and> (\<exists>name country region cond.
        fst (weather_execute default_settings ''London'' ''j1''
               (\<lambda>i. Inr (json_response (PDict london_body))) 0) = Inr (PDict
          [(''location'', PDict [(''name'', name), (''country'', country), (''region'', region)]),
           (''current'', PDict
              [(''temperature_c'', PStr ''15''), (''temperature_f'', PStr []),
               (''feels_like_c'', PStr []), (''feels_like_f'', PStr []), (''condition'', cond),
               (''humidity'', PStr []), (''precipitation_mm'', PStr []),
               (''pressure_mb'', PStr []), (''wind_speed_kmph'', PStr []),
               (''wind_direction'', PStr []), (''cloud_cover'', PStr []),
               (''uv_index'', PStr []), (''visibility_km'', PStr [])]),
           (''observation_time'', PStr [])])
        \<and> name = PStr ''London'' \<and> region = PStr [] \<and> cond = PStr [])"
proof -
  let ?tr = "\<lambda>i::nat. (Inr (json_response (PDict london_body)) :: exn + response)"
  from C7_weather_complete_or_error[of default_settings "''London''" "''j1''" ?tr 0]
  show ?thesis
  proof (elim disjE exE conjE)
    fix m c
    assume "fst (weather_execute default_settings ''London'' ''j1'' ?tr 0)
              = Inl (ToolExecutionError m [] (Some c))"
    with london_direct show ?thesis by simp
  next
    fix r d cur li name country region cond
    assume a: "?tr 0 = Inr r" "json_body r = Inr (PDict d)"
      "py_index0 (dict_get_default d ''current_condition'' (PList [PDict []])) = Inr (PDict cur)"
      "py_index0 (dict_get_default d ''nearest_area'' (PList [PDict []])) = Inr (PDict li)"
      "map_of li ''areaName'' = None \<longrightarrow> name = PStr ''London''"
      "map_of li ''region'' = None \<longrightarrow> region = PStr []"
      "map_of cur ''weatherDesc'' = None \<longrightarrow> cond = PStr []"
    assume res: "fst (weather_execute default_settings ''London'' ''j1'' ?tr 0) = Inr (PDict
          [(''location'', PDict [(''name'', name), (''country'', country), (''region'', region)]),
           (''current'', PDict
              [(''temperature_c'', dict_get_default cur ''temp_C'' (PStr [])),
               (''temperature_f'', dict_get_default cur ''temp_F'' (PStr [])),
               (''feels_like_c'', dict_get_default cur ''FeelsLikeC'' (PStr [])),
               (''feels_like_f'', dict_get_default cur ''FeelsLikeF'' (PStr [])),
               (''condition'', cond),
               (''humidity'', dict_get_default cur ''humidity'' (PStr [])),
               (''precipitation_mm'', dict_get_default cur ''precipMM'' (PStr [])),
               (''pressure_mb'', dict_get_default cur ''pressure'' (PStr [])),
               (''wind_speed_kmph'', dict_get_default cur ''windspeedKmph'' (PStr [])),
               (''wind_direction'', dict_get_default cur ''winddir16Point'' (PStr [])),
               (''cloud_cover'', dict_get_default cur ''cloudcover'' (PStr [])),
               (''uv_index'', dict_get_default cur ''uvIndex'' (PStr [])),
               (''visibility_km'', dict_get_default cur ''visibility'' (PStr []))]),
           (''observation_time'', dict_get_default cur ''observation_time'' (PStr []))])"
    from a(1,2) have d: "d = london_body" by (auto simp: json_response_def)
    from a(3) have cur: "cur = [(''temp_C'', PStr ''15'')]"
      by (simp add: d london_body_def dict_get_default_def py_index0_def)
    from a(4) have li: "li = [(''country'', PList [PDict [(''value'', PStr ''United Kingdom'')]])]"
      by (simp add: d london_body_def dict_get_default_def py_index0_def)
    from a(5,6,7) have v: "name = PStr ''London''" "region = PStr []" "cond = PStr []"
      by (simp_all add: cur li)
    from res v show ?thesis
      by (simp add: cur dict_get_default_def)
  qed
qed

text \<open>
  The claim as stated fails: when the upstream object has no \<open>nearest_area\<close>, the
  \<open>name\<close> entry is the requested location and not the empty string.
\<close>

theorem C7_counterexample:
  "fst (weather_execute default_settings ''London'' ''j1''
          (\<lambda>i. Inr (json_response (PDict []))) 0) = Inr (PDict
     [(''location'', PDict [(''name'', PStr ''London''), (''country'', PStr []),
                            (''region'', PStr [])]),
      (''current'', PDict
         [(''temperature_c'', PStr []), (''temperature_f'', PStr []),
          (''feels_like_c'', PStr []), (''feels_like_f'', PStr []), (''condition'', PStr []),
          (''humidity'', PStr []), (''precipitation_mm'', PStr []), (''pressure_mb'', PStr []),
          (''wind_speed_kmph'', PStr []), (''wind_direction'', PStr []),
          (''cloud_cover'', PStr []), (''uv_index'', PStr []), (''visibility_km'', PStr [])]),
      (''observation_time'', PStr [])])
   \<and> PStr ''London'' \<noteq> PStr []"
  by (simp add: weather_execute_def get_ok json_response_def weather_result_def
        bindE_def py_get_def py_index0_def dict_get_default_def first_value_def)

section \<open>Properties of the mock data tools: validation\<close>

text \<open>
  What each tool does with a negative time range and with a choice outside its list.
  Both are checked before the loader is asked for anything, so the loader comes back
  unchanged and no path has been requested.
\<close>

lemma interface_logs_negative:
  "hours < 0 \<Longrightarrow> interface_logs_execute disk dl system_name hours status
     = (Inl (TimeRangeError ''Hours must be non-negative''), dl, [])"
  by (simp add: interface_logs_execute_def finish_def reraise_validation_def)

lemma batch_logs_negative:
  "hours < 0 \<Longrightarrow> batch_logs_execute rt disk dl job_name hours status
     = (Inl (TimeRangeError ''Hours must be non-negative''), dl, [])"
  by (simp add: batch_logs_execute_def finish_def reraise_validation_def)

lemma inquiry_negative:
  "t < 0 \<Longrightarrow> application_performance_inquiry_execute rt disk dl area t
     = (Inl (TimeRangeError ''Time range must be non-negative''), dl, [])"
  by (simp add: application_performance_inquiry_execute_def finish_def reraise_validation_def)

lemma check_apm_negative:
  "minutes < 0 \<Longrightarrow> check_apm_execute rt disk dl service metric_type minutes threshold
     = (Inl (TimeRangeError ''Minutes must be non-negative''), dl, [])"
  by (simp add: check_apm_execute_def finish_def reraise_validation_def)

lemma check_apm_choice:
  "0 \<le> minutes \<Longrightarrow> metric_type \<notin> set valid_apm_types \<Longrightarrow>
   check_apm_execute rt disk dl service metric_type minutes threshold
     = (Inl (FilterError (''Invalid metric_type. Must be one of: '' @ str_list valid_apm_types)),
        dl, [])"
  by (simp add: check_apm_execute_def finish_def reraise_validation_def)

lemma application_logs_negative:
  "minutes < 0 \<Longrightarrow> application_logs_execute rt disk dl service minutes level pat
     = (Inl (Mon_ToolExecutionError ''Input validation failed: Minutes must be non-negative''
               (Some (TimeRangeError ''Minutes must be non-negative''))), dl, [])"
  by (simp add: application_logs_execute_def finish_def wrap_validation_def)

lemma application_logs_choice:
  "0 \<le> minutes \<Longrightarrow> level \<notin> set valid_levels \<Longrightarrow>
   application_logs_execute rt disk dl service minutes level pat
     = (Inl (Mon_ToolExecutionError
               (''Input validation failed: Level must be one of '' @ str_list valid_levels)
               (Some (FilterError (''Level must be one of '' @ str_list valid_levels)))), dl, [])"
  by (simp add: application_logs_execute_def finish_def wrap_validation_def)

lemma server_performance_negative:
  "minutes < 0 \<Longrightarrow> server_performance_execute rt disk dl node metric_type minutes
     = (Inl (Mon_ToolExecutionError ''Input validation failed: Minutes must be non-negative''
               (Some (TimeRangeError ''Minutes must be non-negative''))), dl, [])"
  by (simp add: server_performance_execute_def finish_def wrap_validation_def)

lemma server_performance_choice:
  "0 \<le> minutes \<Longrightarrow> metric_type \<notin> set valid_types \<Longrightarrow>
   server_performance_execute rt disk dl node metric_type minutes
     = (Inl (Mon_ToolExecutionError
               (''Input validation failed: Metric type must be one of '' @ str_list valid_types)
               (Some (FilterError (''Metric type must be one of '' @ str_list valid_types)))),
        dl, [])"
  by (simp add: server_performance_execute_def finish_def wrap_validation_def)

lemma application_performance_negative:
  "minutes < 0 \<Longrightarrow> application_performance_execute rt disk dl service endpoint minutes
     = (Inl (Mon_ToolExecutionError ''Input validation failed: Minutes must be non-negative''
               (Some (TimeRangeError ''Minutes must be non-negative''))), dl, [])"
  by (simp add: application_performance_execute_def finish_def wrap_validation_def)

text \<open>
  Claim C4, as amended. A negative time range (\<open>hours\<close>, \<open>minutes\<close>,
  \<open>time_range_minutes\<close>) surfaces as \<open>TimeRangeError\<close> from the interface logs, batch
  logs, application performance inquiry and APM tools, and a \<open>metric_type\<close> outside the
  allowed list surfaces as \<open>FilterError\<close> from the APM tool; both are validation errors.
  The application logs, server performance and application performance tools catch the
  two validation errors themselves and surface a \<open>ToolExecutionError\<close> with the message
  \<open>Input validation failed: ...\<close> and the validation error as its cause; a
  \<open>ToolExecutionError\<close> is not a validation error. The time range is checked first, so a
  negative time range decides the outcome whatever the choice parameter is.
\<close>

theorem C4_validation_errors:
  "(t < 0 \<longrightarrow>
      interface_logs_execute disk dl system_name t status
        = (Inl (TimeRangeError ''Hours must be non-negative''), dl, [])
    \<and> batch_logs_execute rt disk dl job_name t status
        = (Inl (TimeRangeError ''Hours must be non-negative''), dl, [])
    \<and> application_performance_inquiry_execute rt disk dl area t
        = (Inl (TimeRangeError ''Time range must be non-negative''), dl, [])
    \<and> check_apm_execute rt disk dl service apm_type t threshold
        = (Inl (TimeRangeError ''Minutes must be non-negative''), dl, [])
    \<and> application_logs_execute rt disk dl service t level pat
        = (Inl (Mon_ToolExecutionError ''Input validation failed: Minutes must be non-negative''
                  (Some (TimeRangeError ''Minutes must be non-negative''))), dl, [])
    \<and> server_performance_execute rt disk dl node metric_type t
        = (Inl (Mon_ToolExecutionError ''Input validation failed: Minutes must be non-negative''
                  (Some (TimeRangeError ''Minutes must be non-negative''))), dl, [])
    \<and> application_performance_execute rt disk dl service endpoint t
        = (Inl (Mon_ToolExecutionError ''Input validation failed: Minutes must be non-negative''
                  (Some (TimeRangeError ''Minutes must be non-negative''))), dl, []))
   \<and> (0 \<le> minutes \<and> apm_type \<notin> set valid_apm_types \<longrightarrow>
      check_apm_execute rt disk dl service apm_type minutes threshold
        = (Inl (FilterError (''Invalid metric_type. Must be one of: ''
                             @ str_list valid_apm_types)), dl, []))
   \<and> (0 \<le> minutes \<and> level \<notin> set valid_levels \<longrightarrow>
      application_logs_execute rt disk dl service minutes level pat
        = (Inl (Mon_ToolExecutionError
                  (''Input validation failed: Level must be one of '' @ str_list valid_levels)
                  (Some (FilterError (''Level must be one of '' @ str_list valid_levels)))),
           dl, []))
   \<and> (0 \<le> minutes \<and> metric_type \<notin> set valid_types \<longrightarrow>
      server_performance_execute rt disk dl node metric_type minutes
        = (Inl (Mon_ToolExecutionError
                  (''Input validation failed: Metric type must be one of ''
                   @ str_list valid_types)
                  (Some (FilterError (''Metric type must be one of '' @ str_list valid_types)))),
           dl, []))
   \<and> is_validation_error (TimeRangeError m) \<and> is_validation_error (FilterError m)
   \<and> \<not> is_validation_error (Mon_ToolExecutionError m c)"
  using interface_logs_negative batch_logs_negative inquiry_negative check_apm_negative
    application_logs_negative server_performance_negative application_performance_negative
    check_apm_choice application_logs_choice server_performance_choice
  by simp

text \<open>The theorem at a time range of \<open>-1\<close> and at choices outside the three lists.\<close>

theorem C4_witness:
  "(- 1 :: int) < 0
   \<and> interface_logs_execute empty_disk (DataLoader_init ''data'') ''all'' (- 1) None
       = (Inl (TimeRangeError ''Hours must be non-negative''), DataLoader_init ''data'', [])
   \<and> server_performance_execute sample_runtime empty_disk (DataLoader_init ''data'') ''all''
         ''gpu'' (- 1)
       = (Inl (Mon_ToolExecutionError ''Input validation failed: Minutes must be non-negative''
                 (Some (TimeRangeError ''Minutes must be non-negative''))),
          DataLoader_init ''data'', [])
   \<and> (0 :: int) \<le> 5 \<and> ''everything'' \<notin> set valid_apm_types \<and> ''TRACE'' \<notin> set valid_levels
   \<and> ''gpu'' \<notin> set valid_types
   \<and> check_apm_execute sample_runtime empty_disk (DataLoader_init ''data'') ''all''
         ''everything'' 5 PNone
       = (Inl (FilterError (''Invalid metric_type. Must be one of: ''
                            @ str_list valid_apm_types)), DataLoader_init ''data'', [])
   \<and> server_performance_execute sample_runtime empty_disk (DataLoader_init ''data'') ''all''
         ''gpu'' 5
       = (Inl (Mon_ToolExecutionError
                 (''Input validation failed: Metric type must be one of ''
                  @ str_list valid_types)
                 (Some (FilterError (''Metric type must be one of '' @ str_list valid_types)))),
          DataLoader_init ''data'', [])"
  using C4_validation_errors [where t = "- 1" and minutes = 5 and rt = sample_runtime
      and disk = empty_disk and dl = "DataLoader_init ''data''" and system_name = "''all''"
      and status = None and node = "''all''" and metric_type = "''gpu''"
      and apm_type = "''everything''" and level = "''TRACE''" and service = "''all''"
      and threshold = PNone]
  by (simp add: valid_apm_types_def valid_levels_def valid_types_def)

text \<open>
  Claim C4 as stated fails: the application logs tool, called with the level \<open>TRACE\<close>,
  surfaces a \<open>ToolExecutionError\<close>, which is not a validation error.
\<close>

theorem C4_counterexample:
  "application_logs_execute sample_runtime empty_disk (DataLoader_init ''data'') ''all'' 10
       ''TRACE'' None
     = (Inl (Mon_ToolExecutionError
               (''Input validation failed: Level must be one of '' @ str_list valid_levels)
               (Some (FilterError (''Level must be one of '' @ str_list valid_levels)))),
        DataLoader_init ''data'', [])
   \<and> \<not> is_validation_error
         (Mon_ToolExecutionError
            (''Input validation failed: Level must be one of '' @ str_list valid_levels)
            (Some (FilterError (''Level must be one of '' @ str_list valid_levels))))"
  by (simp add: application_logs_execute_def finish_def wrap_validation_def valid_levels_def)

section \<open>Validation before execution\<close>





















end
